theory Spec2Isabelle
  imports Main
begin

section \<open>Lifecycle states, errors and frames\<close>

text \<open>
  Modelled from the spec: the enum \<open>IServer.State\<close> / \<open>IConnector.State\<close> (its
  declaration is not among the sources). The spec lists the five stages
  \<open>NONE, OPENING, OPEN, CLOSING, CLOSED\<close>; the connector calls the second stage
  \<open>CONNECTING\<close>. Both ends exchange the stages as sentinel frames, so one type
  serves both.
\<close>

datatype State = NONE | OPENING | OPEN | CLOSING | CLOSED

abbreviation (input) CONNECTING :: State where
  "CONNECTING \<equiv> OPENING"

text \<open>The position of a stage in the order \<open>NONE \<rightarrow> OPENING \<rightarrow> OPEN \<rightarrow> CLOSING \<rightarrow> CLOSED\<close>.\<close>

fun stage :: "State \<Rightarrow> nat" where
  "stage NONE = 0"
| "stage OPENING = 1"
| "stage OPEN = 2"
| "stage CLOSING = 3"
| "stage CLOSED = 4"

text \<open>
  The exception classes the sources throw (\<open>tstl\<close>'s \<open>DomainError\<close> and \<open>RuntimeError\<close>,
  and the \<open>SyntaxError\<close> / \<open>TypeError\<close> of the JavaScript runtime), with their message.
\<close>

datatype ErrorKind = DomainError | RuntimeError | SyntaxError | TypeError | OutOfRange

datatype Error = Error (kind: ErrorKind) (message: string)

text \<open>
  A frame on a worker channel (\<open>evt.data\<close>): one of the lifecycle sentinels, or any
  other payload, carried as text.
\<close>

datatype Frame = Sentinel State | Payload string

text \<open>
  Modelled from the spec: the wire message \<open>Invoke\<close> of section 3 (its declaration is
  not among the sources): a Call \<open>{uid, listener, parameters}\<close> or a Return
  \<open>{uid, success, value}\<close>, parameters and values as encoded text.
\<close>

datatype Invoke =
  Call (uid: nat) (listener: string) (parameters: "string list")
| Return (uid: nat) (success: bool) (val: string)

text \<open>
  A value \<open>JSON.parse\<close> returns, and the reading of a property \<open>k\<close> of it that is
  not built in (the sources read \<open>header\<close>). On \<open>null\<close> the reading throws a
  \<open>TypeError\<close>; on an object it gives the value under \<open>k\<close>, or \<open>undefined\<close>
  (\<open>None\<close>) when there is none; on a number, a string, a boolean or an array it gives
  \<open>undefined\<close>.
\<close>

datatype json =
  JNull
| JBool bool
| JNumber int
| JString string
| JArray "json list"
| JObject "(string \<times> json) list"

fun property :: "json \<Rightarrow> string \<Rightarrow> Error + json option" where
  "property JNull k = Inl (Error TypeError ''Cannot read properties of null'')"
| "property (JObject kvs) k = Inr (map_of kvs k)"
| "property j k = Inr None"

text \<open>
  What an endpoint does to the outside world and to its callers, in the order it does
  it: frames posted, the channel or the servers closed, \<open>destructor\<close> and \<open>replyData\<close>
  called, a promise of \<open>open\<close>, \<open>connect\<close> or \<open>compile\<close> resolved or rejected, a
  temporary file removed, and the future of a Call (by its uid) resolved or rejected.
\<close>

datatype Effect =
  PostMessage Frame
| ChannelClose
| Destructor
| ReplyData json
| Resolve
| Reject Error
| Remove string
| ProtocolClose
| ServerClose
| CallResolved nat
| CallRejected nat

section \<open>The Communicator base class\<close>

text \<open>
  Modelled from the spec: the class \<open>Communicator\<close>, which every worker endpoint
  extends, is not among the sources. The model keeps what sections 4.3 and 4.5 say of
  it: the provider, the pending-call table (the uids of the Calls still awaited) and
  the three entry points \<open>destructor\<close> (\<open>failAll\<close>: the table is drained),
  \<open>replyData\<close> (a Return completes its entry, an unknown uid is dropped; a Call is
  dispatched to the provider) and the sending of a Call (through the ready gate of
  the subclass, registered before it is handed to \<open>sendData\<close>). The field \<open>trace\<close>
  is the model's record of the effects.
\<close>

record Communicator =
  provider :: "string option"
  pending :: "nat list"
  trace :: "Effect list"

definition emit :: "Effect \<Rightarrow> 'a Communicator_scheme \<Rightarrow> 'a Communicator_scheme" where
  "emit e c = c\<lparr>trace := trace c @ [e]\<rparr>"

text \<open>
  Modelled from the spec: \<open>Communicator.destructor\<close>. Section 4.5: it fails every
  entry of the pending-call table (the future of each is rejected), and the table is
  empty afterwards.
\<close>

definition destructor :: "'a Communicator_scheme \<Rightarrow> 'a Communicator_scheme" where
  "destructor c =
     c\<lparr>pending := [], trace := trace c @ Destructor # map CallRejected (pending c)\<rparr>"

text \<open>
  Modelled from the spec: the telling of a Return from a Call. Section 4.1: a
  \<open>listener\<close> field makes the decoded frame a Call, a \<open>success\<close> field a Return, of
  which the model reads the numeric \<open>uid\<close> and \<open>success\<close>.
\<close>

fun as_return :: "json \<Rightarrow> (nat \<times> bool) option" where
  "as_return (JObject kvs) =
     (case (map_of kvs ''listener'', map_of kvs ''success'', map_of kvs ''uid'') of
        (None, Some (JBool ok), Some (JNumber u)) \<Rightarrow> (if 0 \<le> u then Some (nat u, ok) else None)
      | _ \<Rightarrow> None)"
| "as_return j = None"

text \<open>
  Modelled from the spec: \<open>Communicator.replyData\<close>. Sections 4.3 and 4.5: a Return
  whose uid is in the pending-call table removes the entry and resolves its future,
  or rejects it when \<open>success\<close> is false; a Return with an unknown uid is dropped; a
  Call goes to the provider and leaves the table alone.
\<close>

definition replyData :: "json \<Rightarrow> 'a Communicator_scheme \<Rightarrow> 'a Communicator_scheme" where
  "replyData j c =
     (case as_return j of
        None \<Rightarrow> emit (ReplyData j) c
      | Some (u, ok) \<Rightarrow>
          (if u \<in> set (pending c) then
             emit (if ok then CallResolved u else CallRejected u)
               ((emit (ReplyData j) c)\<lparr>pending := removeAll u (pending c)\<rparr>)
           else emit (ReplyData j) c))"

text \<open>
  Modelled from the spec: the driver's sending of a Call, a method of \<open>Communicator\<close>.
  Section 4.5: every operation that needs the channel goes through the ready gate;
  invariant 1 of section 3: the uid is in the table before the frame is on the wire.
  The gate (\<open>inspectReady\<close>) and \<open>sendData\<close> are the subclass's, passed as arguments.
\<close>

definition sendCall ::
  "('a Communicator_scheme \<Rightarrow> Error option) \<Rightarrow>
   (Invoke \<Rightarrow> 'a Communicator_scheme \<Rightarrow> 'a Communicator_scheme) \<Rightarrow>
   Invoke \<Rightarrow> 'a Communicator_scheme \<Rightarrow> Error option \<times> 'a Communicator_scheme" where
  "sendCall gate send invoke c =
     (case gate c of
        Some e \<Rightarrow> (Some e, c)
      | None \<Rightarrow> (None, send invoke (c\<lparr>pending := pending c @ [uid invoke]\<rparr>)))"

section \<open>What the worker process or page provides\<close>

text \<open>
  The globals a worker-side server reads: \<open>is_node()\<close>, whether \<open>self.document\<close> is
  defined (a page, not a worker), whether \<open>global.process.send\<close> is defined (a child
  process), what the channel's \<open>is_worker_server()\<close> answers, the command-line argument
  \<open>process.argv[2]\<close> (\<open>None\<close> when absent), and the variables of the query of
  \<open>self.location.href\<close>.
\<close>

record WorkerEnv =
  is_node :: bool
  document_defined :: bool
  process_send_defined :: bool
  is_worker_server :: bool
  argv2 :: "string option"
  href_query :: "(string \<times> string) list"

text \<open>
  Modelled from the spec: \<open>URLVariables\<close> is not among the sources. Section 6: the
  header is in the URL query parameter named \<open>__m_pArgs\<close>; \<open>get\<close> returns the value of
  a variable of the query. For a variable that is not there the model throws.
\<close>

definition URLVariables_get :: "WorkerEnv \<Rightarrow> string \<Rightarrow> Error + string" where
  "URLVariables_get env key =
     (case map_of (href_query env) key of
        None \<Rightarrow> Inl (Error OutOfRange ''unable to find the matched key'')
      | Some v \<Rightarrow> Inr v)"

section \<open>WorkerServer, the older source (headers from the environment)\<close>

text \<open>
  The fields \<open>state_\<close> and \<open>headers_\<close> of the class (\<open>None\<close> is \<open>undefined\<close>), and
  whether \<open>g.onmessage\<close> has been set to \<open>_Handle_message\<close>.
\<close>

record WorkerServer_old = Communicator +
  state_old :: State
  headers_old :: "json option"
  onmessage_old :: bool

definition new_WorkerServer_old :: WorkerServer_old where
  "new_WorkerServer_old =
     \<lparr>provider = None, pending = [], trace = [],
      state_old = NONE, headers_old = None, onmessage_old = False\<rparr>"

definition inspectReady_old :: "WorkerServer_old \<Rightarrow> Error option" where
  "inspectReady_old s =
     (if state_old s = OPEN then None
      else if state_old s = NONE then Some (Error DomainError ''Server is not opened yet.'')
      else if state_old s = OPENING then
        Some (Error DomainError ''Server is on opening; wait for a sec.'')
      else if state_old s = CLOSING then Some (Error RuntimeError ''Server is on closing.'')
      else if state_old s = CLOSED then Some (Error RuntimeError ''The server has been closed.'')
      else Some (Error RuntimeError ''Unknown error, but not connected.''))"

definition sendData_old :: "(Invoke \<Rightarrow> string) \<Rightarrow> Invoke \<Rightarrow> WorkerServer_old \<Rightarrow> WorkerServer_old" where
  "sendData_old stringify invoke s = emit (PostMessage (Payload (stringify invoke))) s"

text \<open>
  \<open>open\<close>. The check of the state hangs on the \<open>else\<close> of \<open>is_node() === false\<close>: it is
  made under node only. The method has no \<open>await\<close>, so it runs in one piece.
\<close>

definition open_body_old :: "string option \<Rightarrow> WorkerServer_old \<Rightarrow> WorkerServer_old" where
  "open_body_old prov s =
     (emit (PostMessage (Sentinel OPEN))
        (s\<lparr>state_old := OPENING, provider := prov, onmessage_old := True\<rparr>))
      \<lparr>state_old := OPEN\<rparr>"

definition open_old ::
  "WorkerEnv \<Rightarrow> string option \<Rightarrow> WorkerServer_old \<Rightarrow> Error option \<times> WorkerServer_old" where
  "open_old env prov s =
     (if \<not> is_node env then
        (if document_defined env then
           (Some (Error DomainError ''Error on WorkerServer.open(): this is not Worker.''), s)
         else (None, open_body_old prov s))
      else if \<not> process_send_defined env then
        (Some (Error DomainError ''Error on WorkerServer.open(): this is not Child Process.''), s)
      else if state_old s \<noteq> NONE then
        (Some (Error DomainError
           ''Error on WorkerServer.open(): the server has been opened yet.''), s)
      else (None, open_body_old prov s))"

text \<open>
  \<open>close\<close>, in the three pieces its \<open>await\<close> and its \<open>setTimeout\<close> cut it into: up
  to \<open>await this.destructor()\<close> (the gate, \<open>CLOSING\<close>, the destructor); then the
  scheduling of the timer and \<open>CLOSED\<close>; then the timer's callback, which posts the
  \<open>CLOSING\<close> sentinel and closes the channel. \<open>close_old\<close> runs them in a row.
\<close>

definition close_enter_old :: "WorkerServer_old \<Rightarrow> Error option \<times> WorkerServer_old" where
  "close_enter_old s =
     (case inspectReady_old s of
        Some error \<Rightarrow> (Some error, s)
      | None \<Rightarrow> (None, destructor (s\<lparr>state_old := CLOSING\<rparr>)))"

definition close_leave_old :: "WorkerServer_old \<Rightarrow> WorkerServer_old" where
  "close_leave_old s = s\<lparr>state_old := CLOSED\<rparr>"

definition close_timer_old :: "WorkerServer_old \<Rightarrow> WorkerServer_old" where
  "close_timer_old s = emit ChannelClose (emit (PostMessage (Sentinel CLOSING)) s)"

definition close_old :: "WorkerServer_old \<Rightarrow> Error option \<times> WorkerServer_old" where
  "close_old s =
     (case close_enter_old s of
        (Some error, s') \<Rightarrow> (Some error, s')
      | (None, s') \<Rightarrow> (None, close_timer_old (close_leave_old s')))"

text \<open>
  The getter \<open>headers\<close>. \<open>parse\<close> is \<open>JSON.parse\<close> on text (\<open>None\<close>: it throws a
  \<open>SyntaxError\<close>); an absent \<open>argv[2]\<close> is parsed as the text \<open>undefined\<close>, as
  JavaScript coerces it.
\<close>

definition headers_get_old ::
  "(string \<Rightarrow> json option) \<Rightarrow> WorkerEnv \<Rightarrow> WorkerServer_old \<Rightarrow> (Error + json) \<times> WorkerServer_old" where
  "headers_get_old parse env s =
     (case headers_old s of
        Some h \<Rightarrow> (Inr h, s)
      | None \<Rightarrow>
          (if is_node env then
             (case parse (case argv2 env of None \<Rightarrow> ''undefined'' | Some a \<Rightarrow> a) of
                None \<Rightarrow> (Inl (Error SyntaxError ''Unexpected token''), s)
              | Some j \<Rightarrow> (Inr j, s\<lparr>headers_old := Some j\<rparr>))
           else
             (case URLVariables_get env ''__m_pArgs'' of
                Inl e \<Rightarrow> (Inl e, s)
              | Inr a \<Rightarrow>
                  (case parse a of
                     None \<Rightarrow> (Inl (Error SyntaxError ''Unexpected token''), s)
                   | Some j \<Rightarrow> (Inr j, s\<lparr>headers_old := Some j\<rparr>)))))"

text \<open>
  \<open>_Handle_message\<close>. \<open>parse\<close> is \<open>JSON.parse\<close> on \<open>evt.data\<close> (\<open>None\<close>: it throws, and
  the handler ends there). The promise of \<open>this.close()\<close> is dropped.
\<close>

definition Handle_message_old ::
  "(Frame \<Rightarrow> json option) \<Rightarrow> Frame \<Rightarrow> WorkerServer_old \<Rightarrow> WorkerServer_old" where
  "Handle_message_old parse data s =
     (if data = Sentinel CLOSING then snd (close_old s)
      else (case parse data of None \<Rightarrow> s | Some j \<Rightarrow> replyData j s))"

text \<open>
  A frame arrives on the channel: \<open>_Handle_message\<close> gets it once \<open>open\<close> has put it
  on \<open>g.onmessage\<close>; before that there is no listener.
\<close>

definition deliver_old ::
  "(Frame \<Rightarrow> json option) \<Rightarrow> Frame \<Rightarrow> WorkerServer_old \<Rightarrow> WorkerServer_old" where
  "deliver_old parse data s =
     (if onmessage_old s then Handle_message_old parse data s else s)"

section \<open>WorkerServer, the newer source (header by handshake)\<close>

text \<open>
  \<open>header_\<close> is a \<open>Singleton<Promise<Header>>\<close> of \<open>tstl\<close>: its closure runs at the
  first \<open>get()\<close> and the promise it returned is kept, fulfilled or rejected. \<open>None\<close> is
  the singleton before its first \<open>get()\<close>.
\<close>

datatype 'a Promise = Waiting | Fulfilled 'a | Failed Error

text \<open>
  What \<open>channel.onmessage\<close> is: not set; the handler \<open>_Handshake\<close> wrapped in \<open>once\<close>,
  before and after its one call; or \<open>_Handle_message\<close>.
\<close>

datatype Handler = Unset | HandshakeOnce | HandshakeSpent | HandleMessage

text \<open>
  The fields \<open>state_\<close> and \<open>header_\<close>, the channel's \<open>onmessage\<close>, and the number of
  calls of \<open>open\<close> that are suspended at \<open>await this.header_.get()\<close>.
\<close>

record WorkerServer = Communicator +
  state_new :: State
  header_new :: "json option Promise option"
  onmessage_new :: Handler
  opening_new :: nat

definition new_WorkerServer :: WorkerServer where
  "new_WorkerServer =
     \<lparr>provider = None, pending = [], trace = [],
      state_new = NONE, header_new = None, onmessage_new = Unset, opening_new = 0\<rparr>"

definition inspectReady_new :: "WorkerServer \<Rightarrow> Error option" where
  "inspectReady_new s =
     (if state_new s = OPEN then None
      else if state_new s = NONE then Some (Error DomainError ''Server is not opened yet.'')
      else if state_new s = OPENING then
        Some (Error DomainError ''Server is on opening; wait for a sec.'')
      else if state_new s = CLOSING then Some (Error RuntimeError ''Server is on closing.'')
      else if state_new s = CLOSED then Some (Error RuntimeError ''The server has been closed.'')
      else Some (Error RuntimeError ''Unknown error, but not connected.''))"

definition sendData_new :: "(Invoke \<Rightarrow> string) \<Rightarrow> Invoke \<Rightarrow> WorkerServer \<Rightarrow> WorkerServer" where
  "sendData_new stringify invoke s = emit (PostMessage (Payload (stringify invoke))) s"

text \<open>
  \<open>header_.get()\<close>: at the first call the closure posts the \<open>OPENING\<close> sentinel and
  \<open>_Handshake\<close> (called with no time limit) puts its handler, wrapped in \<open>once\<close>, on the
  channel; later calls return the promise that is kept.
\<close>

definition header_get :: "WorkerServer \<Rightarrow> WorkerServer" where
  "header_get s =
     (case header_new s of
        Some p \<Rightarrow> s
      | None \<Rightarrow>
          (emit (PostMessage (Sentinel OPENING)) s)
            \<lparr>header_new := Some Waiting, onmessage_new := HandshakeOnce\<rparr>)"

definition getHeader :: "WorkerServer \<Rightarrow> json option Promise \<times> WorkerServer" where
  "getHeader s =
     (let s' = header_get s
      in (case header_new s' of None \<Rightarrow> Waiting | Some p \<Rightarrow> p, s'))"

text \<open>The end of \<open>open\<close>, after the header has come.\<close>

definition open_resume :: "WorkerServer \<Rightarrow> WorkerServer" where
  "open_resume s =
     (emit (PostMessage (Sentinel OPEN)) (s\<lparr>onmessage_new := HandleMessage\<rparr>))
      \<lparr>state_new := OPEN\<rparr>"

text \<open>
  \<open>open\<close>, up to \<open>await this.header_.get()\<close> and, when the header is there already,
  to its end. As in the older source the check of the state is made under node only.
\<close>

definition open_body_new :: "string option \<Rightarrow> WorkerServer \<Rightarrow> Error option \<times> WorkerServer" where
  "open_body_new prov s =
     (let s' = header_get (s\<lparr>state_new := OPENING, provider := prov\<rparr>)
      in (case header_new s' of
            Some (Fulfilled h) \<Rightarrow> (None, open_resume s')
          | Some (Failed e) \<Rightarrow> (Some e, s')
          | _ \<Rightarrow> (None, s'\<lparr>opening_new := Suc (opening_new s')\<rparr>)))"

definition open_new ::
  "WorkerEnv \<Rightarrow> string option \<Rightarrow> WorkerServer \<Rightarrow> Error option \<times> WorkerServer" where
  "open_new env prov s =
     (if \<not> is_node env then
        (if document_defined env then
           (Some (Error DomainError ''Error on WorkerServer.open(): this is not Worker.''), s)
         else open_body_new prov s)
      else if \<not> is_worker_server env then
        (Some (Error DomainError ''Error on WorkerServer.open(): this is not Worker.''), s)
      else if state_new s \<noteq> NONE then
        (Some (Error DomainError
           ''Error on WorkerServer.open(): the server has been opened yet.''), s)
      else open_body_new prov s)"

definition close_enter_new :: "WorkerServer \<Rightarrow> Error option \<times> WorkerServer" where
  "close_enter_new s =
     (case inspectReady_new s of
        Some error \<Rightarrow> (Some error, s)
      | None \<Rightarrow> (None, destructor (s\<lparr>state_new := CLOSING\<rparr>)))"

definition close_leave_new :: "WorkerServer \<Rightarrow> WorkerServer" where
  "close_leave_new s = s\<lparr>state_new := CLOSED\<rparr>"

definition close_timer_new :: "WorkerServer \<Rightarrow> WorkerServer" where
  "close_timer_new s = emit ChannelClose (emit (PostMessage (Sentinel CLOSING)) s)"

definition close_new :: "WorkerServer \<Rightarrow> Error option \<times> WorkerServer" where
  "close_new s =
     (case close_enter_new s of
        (Some error, s') \<Rightarrow> (Some error, s')
      | (None, s') \<Rightarrow> (None, close_timer_new (close_leave_new s')))"

definition Handle_message_new ::
  "(Frame \<Rightarrow> json option) \<Rightarrow> Frame \<Rightarrow> WorkerServer \<Rightarrow> WorkerServer" where
  "Handle_message_new parse data s =
     (if data = Sentinel CLOSING then snd (close_new s)
      else (case parse data of None \<Rightarrow> s | Some j \<Rightarrow> replyData j s))"

text \<open>
  The one call of the handshake handler: the frame's data resolves \<open>_Handshake\<close>, the
  closure of \<open>header_\<close> parses it and reads its \<open>header\<close>, and every suspended \<open>open\<close>
  goes on (or is rejected with the error of the parse).
\<close>

definition Handshake_message ::
  "(Frame \<Rightarrow> json option) \<Rightarrow> Frame \<Rightarrow> WorkerServer \<Rightarrow> WorkerServer" where
  "Handshake_message parse data s =
     (let n = opening_new s;
          s' = s\<lparr>onmessage_new := HandshakeSpent, opening_new := 0\<rparr>
      in (case (case parse data of
                  None \<Rightarrow> Inl (Error SyntaxError ''Unexpected token'')
                | Some wrapper \<Rightarrow> property wrapper ''header'') of
            Inl e \<Rightarrow> ((emit (Reject e)) ^^ n) (s'\<lparr>header_new := Some (Failed e)\<rparr>)
          | Inr h \<Rightarrow> ((emit Resolve \<circ> open_resume) ^^ n) (s'\<lparr>header_new := Some (Fulfilled h)\<rparr>)))"

text \<open>A frame arrives on the channel: whatever \<open>onmessage\<close> is at that time gets it.\<close>

definition deliver_new ::
  "(Frame \<Rightarrow> json option) \<Rightarrow> Frame \<Rightarrow> WorkerServer \<Rightarrow> WorkerServer" where
  "deliver_new parse data s =
     (case onmessage_new s of
        Unset \<Rightarrow> s
      | HandshakeOnce \<Rightarrow> Handshake_message parse data s
      | HandshakeSpent \<Rightarrow> s
      | HandleMessage \<Rightarrow> Handle_message_new parse data s)"

section \<open>WorkerConnector\<close>

text \<open>
  Modelled from the spec: \<open>IConnector.inspect\<close>, the connector's ready gate, is not
  among the sources. Section 4.5: it returns null in \<open>OPEN\<close> and otherwise a typed
  error matching the state, named after the calling method.
\<close>

definition IConnector_inspect :: "State \<Rightarrow> string \<Rightarrow> Error option" where
  "IConnector_inspect state method =
     (if state = OPEN then None
      else if state = NONE then
        Some (Error DomainError (''Error on '' @ method @ '': connect first.''))
      else if state = CONNECTING then
        Some (Error DomainError (''Error on '' @ method @ '': it is on connecting.''))
      else if state = CLOSING then
        Some (Error RuntimeError (''Error on '' @ method @ '': the connection is on closing.''))
      else if state = CLOSED then
        Some (Error RuntimeError (''Error on '' @ method @ '': the connection has been closed.''))
      else Some (Error RuntimeError (''Error on '' @ method @ '': unknown error.'')))"

text \<open>
  The worker \<open>Compiler.execute(jsFile, headers)\<close> makes: the script and the headers it
  was started with.
\<close>

datatype Worker = Worker (jsFile: string) (headers: string)

text \<open>
  \<open>connector_\<close> holds the \<open>resolve\<close> of the promise of the last \<open>_Connect\<close>: whose
  promise it is (a \<open>connect\<close>, or a \<open>compile\<close> that waits to remove its temporary file)
  and whether it has been called.
\<close>

datatype Awaiter = Awaiter (temporary: "string option") (settled: bool)

text \<open>
  The fields \<open>state_\<close>, \<open>worker_\<close> and \<open>connector_\<close> of the class, and the calls of
  \<open>compile\<close> that have passed their test and wait for \<open>Compiler.compile\<close>, each with
  its \<open>content\<close> and \<open>headers\<close>.
\<close>

record WorkerConnector = Communicator +
  state_con :: State
  worker_con :: "Worker option"
  connector_con :: "Awaiter option"
  compiling_con :: "(string \<times> string) list"

definition new_WorkerConnector :: "string option \<Rightarrow> WorkerConnector" where
  "new_WorkerConnector prov =
     \<lparr>provider = prov, pending = [], trace = [],
      state_con = NONE, worker_con = None, connector_con = None, compiling_con = []\<rparr>"

definition Test_connection :: "string \<Rightarrow> WorkerConnector \<Rightarrow> Error option" where
  "Test_connection method s =
     (if worker_con s \<noteq> None \<and> state_con s \<noteq> CLOSED then
        (if state_con s = CONNECTING then
           Some (Error DomainError (''Error on WorkerConnector.'' @ method @ ''(): on connecting.''))
         else if state_con s = OPEN then
           Some (Error DomainError
             (''Error on WorkerConnector.'' @ method @ ''(): already connected.''))
         else
           Some (Error DomainError (''Error on WorkerConnector.'' @ method @ ''(): closing.'')))
      else None)"

text \<open>
  \<open>_Connect\<close>. \<open>execute\<close> is \<open>Compiler.execute\<close>, which returns the worker or throws;
  \<open>k\<close> is the temporary file of the calling \<open>compile\<close>, if any. The result \<open>None\<close>
  leaves the promise pending: the \<open>OPEN\<close> frame resolves it.
\<close>

definition Connect ::
  "(string \<Rightarrow> string \<Rightarrow> Error + Worker) \<Rightarrow> string \<Rightarrow> string \<Rightarrow> string option \<Rightarrow>
   WorkerConnector \<Rightarrow> Error option \<times> WorkerConnector" where
  "Connect execute file hdrs k s =
     (let s' = s\<lparr>state_con := CONNECTING\<rparr>
      in (case execute file hdrs of
            Inr w \<Rightarrow> (None, s'\<lparr>worker_con := Some w, connector_con := Some (Awaiter k False)\<rparr>)
          | Inl exp \<Rightarrow> (Some exp, s'\<lparr>state_con := NONE\<rparr>)))"

definition connect ::
  "(string \<Rightarrow> string \<Rightarrow> Error + Worker) \<Rightarrow> string \<Rightarrow> string \<Rightarrow>
   WorkerConnector \<Rightarrow> Error option \<times> WorkerConnector" where
  "connect execute file hdrs s =
     (case Test_connection ''connect'' s of
        Some e \<Rightarrow> (Some e, s)
      | None \<Rightarrow> Connect execute file hdrs None s)"

text \<open>
  \<open>compile\<close>, in the two pieces its first \<open>await\<close> cuts it into. The first piece is
  the test, after which the call waits for \<open>Compiler.compile\<close>. The second piece runs
  when \<open>Compiler.compile\<close> is done, whatever has become of the connector in between:
  \<open>compiler\<close> is \<open>Compiler.compile\<close>, which returns the path of the temporary file
  or throws; then \<open>_Connect\<close> is run, with no further test. When \<open>_Connect\<close> rejects,
  the file is removed and the error thrown; otherwise the call waits for the
  connection.
\<close>

definition compile_enter ::
  "string \<Rightarrow> string \<Rightarrow> WorkerConnector \<Rightarrow> Error option \<times> WorkerConnector" where
  "compile_enter content hdrs s =
     (case Test_connection ''compile'' s of
        Some e \<Rightarrow> (Some e, s)
      | None \<Rightarrow> (None, s\<lparr>compiling_con := compiling_con s @ [(content, hdrs)]\<rparr>))"

definition compile_resume ::
  "(string \<Rightarrow> Error + string) \<Rightarrow> (string \<Rightarrow> string \<Rightarrow> Error + Worker) \<Rightarrow> string \<Rightarrow> string \<Rightarrow>
   WorkerConnector \<Rightarrow> Error option \<times> WorkerConnector" where
  "compile_resume compiler execute content hdrs s =
     (let s0 = s\<lparr>compiling_con := remove1 (content, hdrs) (compiling_con s)\<rparr>
      in (case compiler content of
            Inl e \<Rightarrow> (Some e, s0)
          | Inr path \<Rightarrow>
              (case Connect execute path hdrs (Some path) s0 of
                 (Some error, s') \<Rightarrow> (Some error, emit (Remove path) s')
               | (None, s') \<Rightarrow> (None, s'))))"

definition inspectReady :: "string \<Rightarrow> WorkerConnector \<Rightarrow> Error option" where
  "inspectReady method s = IConnector_inspect (state_con s) (''WorkerConnector.'' @ method @ ''()'')"

text \<open>
  \<open>sendData\<close> and \<open>close\<close> post to \<open>this.worker_!\<close>: with no worker the call throws a
  \<open>TypeError\<close> (in \<open>close\<close>, after the state has been set).
\<close>

definition sendData :: "(Invoke \<Rightarrow> string) \<Rightarrow> Invoke \<Rightarrow> WorkerConnector \<Rightarrow> WorkerConnector" where
  "sendData stringify invoke s =
     (case worker_con s of
        None \<Rightarrow> s
      | Some w \<Rightarrow> emit (PostMessage (Payload (stringify invoke))) s)"

definition close :: "WorkerConnector \<Rightarrow> Error option \<times> WorkerConnector" where
  "close s =
     (case inspectReady ''WorkerConnector.close'' s of
        Some error \<Rightarrow> (Some error, s)
      | None \<Rightarrow>
          (let s' = s\<lparr>state_con := CLOSING\<rparr>
           in (case worker_con s' of
                 None \<Rightarrow> (Some (Error TypeError ''Cannot read properties of undefined''), s')
               | Some w \<Rightarrow> (None, emit (PostMessage (Sentinel CLOSING)) s'))))"

text \<open>
  \<open>_Handle_close\<close>: \<open>destructor()\<close>, then \<open>CLOSED\<close>. The destructor of the model runs
  in one piece, so the assignment follows it at once.
\<close>

definition Handle_close :: "WorkerConnector \<Rightarrow> WorkerConnector" where
  "Handle_close s = (destructor s)\<lparr>state_con := CLOSED\<rparr>"

text \<open>
  The call \<open>this.connector_!()\<close>: it resolves the promise of \<open>_Connect\<close> and, the
  first time, lets a waiting \<open>compile\<close> remove its file; with no \<open>connector_\<close> it
  throws inside the handler.
\<close>

definition call_connector :: "WorkerConnector \<Rightarrow> WorkerConnector" where
  "call_connector s =
     (case connector_con s of
        None \<Rightarrow> s
      | Some (Awaiter k True) \<Rightarrow> emit Resolve s
      | Some (Awaiter k False) \<Rightarrow>
          (case k of
             None \<Rightarrow> emit Resolve s
           | Some path \<Rightarrow> emit (Remove path) (emit Resolve s))
            \<lparr>connector_con := Some (Awaiter k True)\<rparr>)"

definition Handle_message ::
  "(Frame \<Rightarrow> json option) \<Rightarrow> Frame \<Rightarrow> WorkerConnector \<Rightarrow> WorkerConnector" where
  "Handle_message parse data s =
     (if data = Sentinel OPEN then call_connector (s\<lparr>state_con := OPEN\<rparr>)
      else if data = Sentinel CLOSING then Handle_close s
      else (case parse data of None \<Rightarrow> s | Some j \<Rightarrow> replyData j s))"

section \<open>WebServer\<close>

text \<open>
  The node server object behind \<open>server_\<close>: whether \<open>https.createServer\<close> made it
  (then it is no instance of \<open>http.Server\<close>), which call of \<open>createServer\<close> made it
  (its identity), and the listeners the class has put on it: for \<open>upgrade\<close>, for
  \<open>listening\<close>, the handler of \<open>error\<close> that \<open>_Open\<close> installs, and the empty handler
  of \<open>error\<close> installed once it listens; and the port \<open>listen\<close> was called with.
\<close>

record HttpServer =
  secure :: bool
  serial :: nat
  upgrade_listeners :: nat
  listening_listeners :: nat
  error_listeners :: nat
  empty_error_listeners :: nat
  listen_port :: "nat option"

definition createServer :: "bool \<Rightarrow> nat \<Rightarrow> HttpServer" where
  "createServer sec n =
     \<lparr>secure = sec, serial = n, upgrade_listeners = 0, listening_listeners = 0,
      error_listeners = 0, empty_error_listeners = 0, listen_port = None\<rparr>"

text \<open>
  The fields \<open>state_\<close>, \<open>options_\<close> (key and certificate) and \<open>server_\<close> of the class,
  the number of server objects created so far, and the effects.
\<close>

record WebServer =
  state_web :: State
  options_web :: "(string \<times> string option) option"
  server_web :: HttpServer
  created_web :: nat
  trace_web :: "Effect list"

text \<open>The constructor: a key that is given and not empty makes a secured server.\<close>

definition new_WebServer :: "string option \<Rightarrow> string option \<Rightarrow> WebServer" where
  "new_WebServer key cert =
     (case key of
        Some (c # cs) \<Rightarrow>
          \<lparr>state_web = NONE, options_web = Some (c # cs, cert),
           server_web = createServer True 0, created_web = 1, trace_web = []\<rparr>
      | _ \<Rightarrow>
          \<lparr>state_web = NONE, options_web = None,
           server_web = createServer False 0, created_web = 1, trace_web = []\<rparr>)"

text \<open>
  \<open>_Open\<close>: the two listeners are added to the server and \<open>listen\<close> is called; the
  promise stays pending until the server reports \<open>listening\<close> or \<open>error\<close>.
\<close>

definition Open_web :: "nat \<Rightarrow> WebServer \<Rightarrow> WebServer" where
  "Open_web port s =
     s\<lparr>server_web := (server_web s)
        \<lparr>listening_listeners := Suc (listening_listeners (server_web s)),
         error_listeners := Suc (error_listeners (server_web s)),
         listen_port := Some port\<rparr>\<rparr>"

text \<open>
  \<open>open\<close>, up to \<open>await this._Open(port)\<close>. From \<open>CLOSED\<close> a new server object of the
  same kind replaces the old one. The handler of \<open>upgrade\<close> is modelled below, per
  socket.
\<close>

definition open_web :: "nat \<Rightarrow> WebServer \<Rightarrow> Error option \<times> WebServer" where
  "open_web port s =
     (if state_web s = OPEN then
        (Some (Error DomainError ''Error on WebServer.open(): it has already been opened.''), s)
      else if state_web s = OPENING then
        (Some (Error DomainError
           ''Error on WebServer.open(): it's on opening, wait for a second.''), s)
      else if state_web s = CLOSING then
        (Some (Error RuntimeError ''Error on WebServer.open(): it's on closing.''), s)
      else
        (let s1 = (if state_web s = CLOSED then
                     s\<lparr>server_web := createServer (secure (server_web s)) (created_web s),
                       created_web := Suc (created_web s)\<rparr>
                   else s);
             s2 = s1\<lparr>state_web := OPENING\<rparr>;
             s3 = s2\<lparr>server_web := (server_web s2)
                    \<lparr>upgrade_listeners := Suc (upgrade_listeners (server_web s2))\<rparr>\<rparr>
         in (None, Open_web port s3)))"

text \<open>
  The server reports \<open>listening\<close>: every listener \<open>_Open\<close> added sets \<open>OPEN\<close>, adds an
  empty handler of \<open>error\<close> and calls \<open>resolve\<close>.
\<close>

definition listening_handler :: "WebServer \<Rightarrow> WebServer" where
  "listening_handler s =
     s\<lparr>state_web := OPEN,
       server_web := (server_web s)
         \<lparr>empty_error_listeners := Suc (empty_error_listeners (server_web s))\<rparr>,
       trace_web := trace_web s @ [Resolve]\<rparr>"

definition on_listening :: "WebServer \<Rightarrow> WebServer" where
  "on_listening s = (listening_handler ^^ listening_listeners (server_web s)) s"

text \<open>
  The server reports \<open>error\<close>: every handler \<open>_Open\<close> added sets \<open>NONE\<close> and calls
  \<open>reject\<close>; the empty handlers do nothing. \<open>on\<close> adds a listener and removes none, so
  the handlers of \<open>_Open\<close> stay on the server after it listens.
\<close>

definition error_handler :: "Error \<Rightarrow> WebServer \<Rightarrow> WebServer" where
  "error_handler error s = s\<lparr>state_web := NONE, trace_web := trace_web s @ [Reject error]\<rparr>"

definition on_error :: "Error \<Rightarrow> WebServer \<Rightarrow> WebServer" where
  "on_error error s = (error_handler error ^^ error_listeners (server_web s)) s"

text \<open>
  \<open>close\<close>, in the pieces the callbacks of \<open>_Close\<close> cut it into: the check,
  \<open>CLOSING\<close> and \<open>protocol_.close\<close>; then \<open>server_.close\<close>; then \<open>CLOSED\<close>.
\<close>

definition close_enter_web :: "WebServer \<Rightarrow> Error option \<times> WebServer" where
  "close_enter_web s =
     (if state_web s \<noteq> OPEN then
        (Some (Error DomainError ''Error on WebServer.close(): server is not opened.''), s)
      else (None, s\<lparr>state_web := CLOSING, trace_web := trace_web s @ [ProtocolClose]\<rparr>))"

definition close_protocol_web :: "WebServer \<Rightarrow> WebServer" where
  "close_protocol_web s = s\<lparr>trace_web := trace_web s @ [ServerClose]\<rparr>"

definition close_leave_web :: "WebServer \<Rightarrow> WebServer" where
  "close_leave_web s = s\<lparr>state_web := CLOSED\<rparr>"

definition close_web :: "WebServer \<Rightarrow> Error option \<times> WebServer" where
  "close_web s =
     (case close_enter_web s of
        (Some error, s') \<Rightarrow> (Some error, s')
      | (None, s') \<Rightarrow> (None, close_leave_web (close_protocol_web s')))"

subsection \<open>The handler of an upgrade\<close>

text \<open>
  What a socket delivers (\<open>WebSocket.Data\<close>): a text, or binary data, carried as the
  text JavaScript coerces it to when \<open>JSON.parse\<close> is given it.
\<close>

datatype WsData = Text string | Binary string

fun is_string :: "WsData \<Rightarrow> bool" where
  "is_string (Text t) = True"
| "is_string (Binary b) = False"

fun as_string :: "WsData \<Rightarrow> string" where
  "as_string (Text t) = t"
| "as_string (Binary b) = b"

text \<open>
  Modelled from the spec: \<open>WebAcceptor\<close> is not among the sources. Section 4.6: the
  per-client acceptor is bound to the socket of the upgrade and carries the header
  (\<open>None\<close> is \<open>undefined\<close>).
\<close>

record WebAcceptor =
  request :: string
  header :: "json option"

text \<open>
  Modelled from the spec: \<open>WebAcceptor.create\<close> makes the acceptor of a request, its
  socket and the header read from the first frame.
\<close>

definition WebAcceptor_create :: "string \<Rightarrow> json option \<Rightarrow> WebAcceptor" where
  "WebAcceptor_create req h = \<lparr>request = req, header = h\<rparr>"

text \<open>What the handler of the first message does to the socket and to the user's handler.\<close>

datatype Step = SocketClose | HandlerCall WebAcceptor

text \<open>
  The listener of the first message. \<open>parse\<close> is \<open>JSON.parse\<close> (\<open>None\<close>: it throws);
  \<open>handler\<close> is the user's, with \<open>Some\<close> error when it throws or rejects. After the
  check of the type there is no \<open>return\<close>: the \<open>try\<close> block runs for binary data too.
\<close>

definition first_message ::
  "(string \<Rightarrow> json option) \<Rightarrow> (WebAcceptor \<Rightarrow> Error option) \<Rightarrow> string \<Rightarrow> WsData \<Rightarrow> Step list" where
  "first_message parse handler req data =
     (if \<not> is_string data then [SocketClose] else []) @
     (case parse (as_string data) of
        None \<Rightarrow> [SocketClose]
      | Some wrapper \<Rightarrow>
          (case property wrapper ''header'' of
             Inl exp \<Rightarrow> [SocketClose]
           | Inr h \<Rightarrow>
               (let acceptor = WebAcceptor_create req h
                in HandlerCall acceptor #
                   (case handler acceptor of
                      Some exp \<Rightarrow> [SocketClose]
                    | None \<Rightarrow> []))))"

text \<open>
  The socket of an upgrade, as the server sees it: whether the listener put on it with
  \<open>once\<close> is still there, and what has been done.
\<close>

record Socket =
  message_listener :: bool
  steps :: "Step list"

definition handleUpgrade :: Socket where
  "handleUpgrade = \<lparr>message_listener = True, steps = []\<rparr>"

definition on_message ::
  "(string \<Rightarrow> json option) \<Rightarrow> (WebAcceptor \<Rightarrow> Error option) \<Rightarrow> string \<Rightarrow> WsData \<Rightarrow>
   Socket \<Rightarrow> Socket" where
  "on_message parse handler req data k =
     (if message_listener k then
        k\<lparr>message_listener := False, steps := steps k @ first_message parse handler req data\<rparr>
      else k)"

section \<open>Runs of an endpoint\<close>

text \<open>
  The functions of the host the endpoints call: \<open>JSON.parse\<close> on the data of a frame
  and on a text (\<open>None\<close>: it throws), \<open>JSON.stringify\<close>, \<open>Compiler.execute\<close> and
  \<open>Compiler.compile\<close>.
\<close>

record Host =
  parse_frame :: "Frame \<Rightarrow> json option"
  parse_text :: "string \<Rightarrow> json option"
  stringify :: "Invoke \<Rightarrow> string"
  execute :: "string \<Rightarrow> string \<Rightarrow> Error + Worker"
  compiler :: "string \<Rightarrow> Error + string"

text \<open>
  A run starts at \<open>init\<close> and takes one enabled step after the other. A step is a call
  of a public method up to its first \<open>await\<close>, the rest of a method after an \<open>await\<close>,
  or the handling of one event of the transport. \<open>enabled\<close> says which events the
  transport can deliver in a state.
\<close>

inductive reachable :: "('e \<Rightarrow> 's \<Rightarrow> bool) \<Rightarrow> ('e \<Rightarrow> 's \<Rightarrow> 's) \<Rightarrow> 's \<Rightarrow> 's \<Rightarrow> bool"
  for enabled :: "'e \<Rightarrow> 's \<Rightarrow> bool" and step :: "'e \<Rightarrow> 's \<Rightarrow> 's" and init :: 's where
  start: "reachable enabled step init init"
| after: "reachable enabled step init s \<Longrightarrow> enabled e s \<Longrightarrow> reachable enabled step init (step e s)"

subsection \<open>WebServer\<close>

datatype WebEvent =
  WebOpen nat
| WebClose
| WebProtocolClosed
| WebServerClosed
| WebListening
| WebError Error

fun web_step :: "WebEvent \<Rightarrow> WebServer \<Rightarrow> WebServer" where
  "web_step (WebOpen port) s = snd (open_web port s)"
| "web_step WebClose s = snd (close_enter_web s)"
| "web_step WebProtocolClosed s = close_protocol_web s"
| "web_step WebServerClosed s = close_leave_web s"
| "web_step WebListening s = on_listening s"
| "web_step (WebError error) s = on_error error s"

text \<open>
  The callbacks of \<open>_Close\<close> come while the server is \<open>CLOSING\<close>; the server reports
  \<open>listening\<close> or \<open>error\<close> in answer to \<open>listen\<close>, while it is \<open>OPENING\<close>. An \<open>error\<close>
  reported after the server listens is not part of these runs.
\<close>

fun web_enabled :: "WebEvent \<Rightarrow> WebServer \<Rightarrow> bool" where
  "web_enabled (WebOpen port) s = True"
| "web_enabled WebClose s = True"
| "web_enabled WebProtocolClosed s = (state_web s = CLOSING)"
| "web_enabled WebServerClosed s = (state_web s = CLOSING)"
| "web_enabled WebListening s = (state_web s = OPENING)"
| "web_enabled (WebError error) s = (state_web s = OPENING)"

subsection \<open>WorkerConnector\<close>

datatype ConEvent =
  ConConnect string string
| ConCompile string string
| ConCompiled string string
| ConClose
| ConCall Invoke
| ConFrame Frame

fun con_step :: "Host \<Rightarrow> ConEvent \<Rightarrow> WorkerConnector \<Rightarrow> WorkerConnector" where
  "con_step h (ConConnect file hdrs) s = snd (connect (execute h) file hdrs s)"
| "con_step h (ConCompile content hdrs) s = snd (compile_enter content hdrs s)"
| "con_step h (ConCompiled content hdrs) s =
     snd (compile_resume (compiler h) (execute h) content hdrs s)"
| "con_step h ConClose s = snd (close s)"
| "con_step h (ConCall invoke) s =
     snd (sendCall (inspectReady ''call'') (sendData (stringify h)) invoke s)"
| "con_step h (ConFrame data) s = Handle_message (parse_frame h) data s"

text \<open>
  A frame comes from the worker, so there is one; and the worker posts the \<open>OPEN\<close>
  sentinel in answer to a connection, while the connector is \<open>CONNECTING\<close>. An \<open>OPEN\<close>
  sentinel in another state is not part of these runs. \<open>Compiler.compile\<close> is done
  for a call of \<open>compile\<close> that waits for it; these runs have it done while the
  connector still passes the test the call made (it has no worker, or it is
  \<open>CLOSED\<close>): a \<open>compile\<close> that goes on after a \<open>connect\<close> or another \<open>compile\<close> has
  taken the connector is not part of them.
\<close>

fun con_enabled :: "ConEvent \<Rightarrow> WorkerConnector \<Rightarrow> bool" where
  "con_enabled (ConFrame data) s =
     (worker_con s \<noteq> None \<and> (if data = Sentinel OPEN then state_con s = CONNECTING else True))"
| "con_enabled (ConCompiled content hdrs) s =
     ((content, hdrs) \<in> set (compiling_con s) \<and> (worker_con s = None \<or> state_con s = CLOSED))"
| "con_enabled e s = True"

subsection \<open>WorkerServer\<close>

datatype ServerEvent =
  SrvOpen "string option"
| SrvHeader
| SrvClose
| SrvCloseLeave
| SrvCloseTimer
| SrvCall Invoke
| SrvFrame Frame

fun old_step :: "Host \<Rightarrow> WorkerEnv \<Rightarrow> ServerEvent \<Rightarrow> WorkerServer_old \<Rightarrow> WorkerServer_old" where
  "old_step h env (SrvOpen prov) s = snd (open_old env prov s)"
| "old_step h env SrvHeader s = snd (headers_get_old (parse_text h) env s)"
| "old_step h env SrvClose s = snd (close_enter_old s)"
| "old_step h env SrvCloseLeave s = close_leave_old s"
| "old_step h env SrvCloseTimer s = close_timer_old s"
| "old_step h env (SrvCall invoke) s =
     snd (sendCall inspectReady_old (sendData_old (stringify h)) invoke s)"
| "old_step h env (SrvFrame data) s = deliver_old (parse_frame h) data s"

text \<open>
  The rest of \<open>close\<close> comes after its first piece, while the server is \<open>CLOSING\<close>,
  and the timer after that. In a page's
  worker (\<open>is_node()\<close> false) \<open>open\<close> does not look at the state: only its call on a
  new server is part of these runs.
\<close>

fun old_enabled :: "WorkerEnv \<Rightarrow> ServerEvent \<Rightarrow> WorkerServer_old \<Rightarrow> bool" where
  "old_enabled env (SrvOpen prov) s = (is_node env \<or> state_old s = NONE)"
| "old_enabled env SrvCloseLeave s = (state_old s = CLOSING)"
| "old_enabled env SrvCloseTimer s = (state_old s = CLOSED)"
| "old_enabled env e s = True"

fun new_step :: "Host \<Rightarrow> WorkerEnv \<Rightarrow> ServerEvent \<Rightarrow> WorkerServer \<Rightarrow> WorkerServer" where
  "new_step h env (SrvOpen prov) s = snd (open_new env prov s)"
| "new_step h env SrvHeader s = snd (getHeader s)"
| "new_step h env SrvClose s = snd (close_enter_new s)"
| "new_step h env SrvCloseLeave s = close_leave_new s"
| "new_step h env SrvCloseTimer s = close_timer_new s"
| "new_step h env (SrvCall invoke) s =
     snd (sendCall inspectReady_new (sendData_new (stringify h)) invoke s)"
| "new_step h env (SrvFrame data) s = deliver_new (parse_frame h) data s"

fun new_enabled :: "WorkerEnv \<Rightarrow> ServerEvent \<Rightarrow> WorkerServer \<Rightarrow> bool" where
  "new_enabled env (SrvOpen prov) s = (is_node env \<or> state_new s = NONE)"
| "new_enabled env SrvCloseLeave s = (state_new s = CLOSING)"
| "new_enabled env SrvCloseTimer s = (state_new s = CLOSED)"
| "new_enabled env e s = True"

subsection \<open>The cycle connect, use, close of a connector\<close>

text \<open>
  What a client does with an open connection, as the tests of re-use do: it sends a
  Call and waits for its Return, one Call after the other. \<open>answer\<close> gives the text of
  the frame the worker posts back for a Call. The first Call that is refused ends
  the use with its error.
\<close>

fun use ::
  "Host \<Rightarrow> (Invoke \<Rightarrow> string) \<Rightarrow> Invoke list \<Rightarrow> WorkerConnector \<Rightarrow>
   Error option \<times> WorkerConnector" where
  "use h answer [] s = (None, s)"
| "use h answer (invoke # calls) s =
     (case sendCall (inspectReady ''call'') (sendData (stringify h)) invoke s of
        (Some e, s') \<Rightarrow> (Some e, s')
      | (None, s') \<Rightarrow>
          use h answer calls (Handle_message (parse_frame h) (Payload (answer invoke)) s'))"

text \<open>
  One cycle: \<open>connect\<close>, answered by the worker's \<open>OPEN\<close> sentinel; the use; \<open>close\<close>,
  answered by the worker's \<open>CLOSING\<close> sentinel. The first call that is rejected ends
  the cycle with its error.
\<close>

definition cycle ::
  "Host \<Rightarrow> (Invoke \<Rightarrow> string) \<Rightarrow> string \<Rightarrow> string \<Rightarrow> Invoke list \<Rightarrow> WorkerConnector \<Rightarrow>
   Error option \<times> WorkerConnector" where
  "cycle h answer file hdrs calls s =
     (case connect (execute h) file hdrs s of
        (Some e, s1) \<Rightarrow> (Some e, s1)
      | (None, s1) \<Rightarrow>
          (case use h answer calls (Handle_message (parse_frame h) (Sentinel OPEN) s1) of
             (Some e, s2) \<Rightarrow> (Some e, s2)
           | (None, s2) \<Rightarrow>
               (case close s2 of
                  (Some e, s3) \<Rightarrow> (Some e, s3)
                | (None, s3) \<Rightarrow> (None, Handle_message (parse_frame h) (Sentinel CLOSING) s3))))"

fun cycles ::
  "Host \<Rightarrow> (Invoke \<Rightarrow> string) \<Rightarrow> string \<Rightarrow> string \<Rightarrow> Invoke list list \<Rightarrow> WorkerConnector \<Rightarrow>
   Error option \<times> WorkerConnector" where
  "cycles h answer file hdrs [] s = (None, s)"
| "cycles h answer file hdrs (calls # rest) s =
     (case cycle h answer file hdrs calls s of
        (Some e, s') \<Rightarrow> (Some e, s')
      | (None, s') \<Rightarrow> cycles h answer file hdrs rest s')"

text \<open>
  The effects of a Call that is answered by a successful Return: the Call is posted,
  the decoded Return is given to \<open>replyData\<close>, and the future of the Call is resolved.
  The effects of a cycle: the promise of \<open>connect\<close> is resolved, the Calls follow, then
  the \<open>CLOSING\<close> sentinel is posted and the destructor runs, with nothing to reject.
\<close>

definition call_effects :: "Host \<Rightarrow> (Invoke \<Rightarrow> string) \<Rightarrow> Invoke \<Rightarrow> Effect list" where
  "call_effects h answer invoke =
     PostMessage (Payload (stringify h invoke)) #
     (case parse_frame h (Payload (answer invoke)) of
        None \<Rightarrow> []
      | Some j \<Rightarrow> [ReplyData j, CallResolved (uid invoke)])"

definition cycle_effects :: "Host \<Rightarrow> (Invoke \<Rightarrow> string) \<Rightarrow> Invoke list \<Rightarrow> Effect list" where
  "cycle_effects h answer calls =
     Resolve # concat (map (call_effects h answer) calls) @
     [PostMessage (Sentinel CLOSING), Destructor]"

text \<open>The worker answers a Call with a successful Return of the same uid.\<close>

definition answered :: "Host \<Rightarrow> (Invoke \<Rightarrow> string) \<Rightarrow> Invoke \<Rightarrow> bool" where
  "answered h answer invoke =
     (case parse_frame h (Payload (answer invoke)) of
        None \<Rightarrow> False
      | Some j \<Rightarrow> as_return j = Some (uid invoke, True))"

subsection \<open>The classification of the ready gate\<close>

text \<open>
  The kind of error the gate of a worker server is said to give in each state: none
  in \<open>OPEN\<close>, a \<open>DomainError\<close> in \<open>NONE\<close> and \<open>OPENING\<close>, a \<open>RuntimeError\<close> in \<open>CLOSING\<close>
  and \<open>CLOSED\<close>.
\<close>

fun ready_class :: "State \<Rightarrow> ErrorKind option" where
  "ready_class OPEN = None"
| "ready_class NONE = Some DomainError"
| "ready_class OPENING = Some DomainError"
| "ready_class CLOSING = Some RuntimeError"
| "ready_class CLOSED = Some RuntimeError"

section \<open>A host and two environments for the examples\<close>

text \<open>
  A stand-in for \<open>JSON.parse\<close> that is enough for the examples: the empty text does
  not parse, any other text \<open>t\<close> parses as the envelope \<open>{header: t}\<close>, and a sentinel
  parses as a number. \<open>Compiler.execute\<close> fails for the empty file name.
\<close>

definition sample_parse :: "string \<Rightarrow> json option" where
  "sample_parse t = (if t = [] then None else Some (JObject [(''header'', JString t)]))"

definition sample_parse_frame :: "Frame \<Rightarrow> json option" where
  "sample_parse_frame d =
     (case d of Payload t \<Rightarrow> sample_parse t | Sentinel st \<Rightarrow> Some (JNumber (int (stage st) - 1)))"

definition sample_execute :: "string \<Rightarrow> string \<Rightarrow> Error + Worker" where
  "sample_execute file hdrs =
     (if file = [] then Inl (Error RuntimeError ''cannot spawn the worker'')
      else Inr (Worker file hdrs))"

definition sample_host :: Host where
  "sample_host =
     \<lparr>parse_frame = sample_parse_frame, parse_text = sample_parse, stringify = listener,
      execute = sample_execute, compiler = (\<lambda>content. Inr ''tmp.js'')\<rparr>"

text \<open>
  A host whose frames are Returns, for the examples of a connection in use: a text of
  \<open>n\<close> characters parses as the successful Return of the Call with uid \<open>n\<close>, and the
  worker answers a Call with such a text.
\<close>

definition return_parse_frame :: "Frame \<Rightarrow> json option" where
  "return_parse_frame d =
     (case d of
        Payload t \<Rightarrow>
          Some (JObject [(''uid'', JNumber (int (length t))), (''success'', JBool True),
                         (''value'', JString t)])
      | Sentinel st \<Rightarrow> Some (JNumber (int (stage st) - 1)))"

definition return_host :: Host where
  "return_host = sample_host\<lparr>parse_frame := return_parse_frame\<rparr>"

definition return_answer :: "Invoke \<Rightarrow> string" where
  "return_answer invoke = replicate (uid invoke) (CHR ''1'')"

text \<open>A child process of node started with the argument \<open>A\<close>, and a worker of a page.\<close>

definition node_env :: WorkerEnv where
  "node_env =
     \<lparr>is_node = True, document_defined = False, process_send_defined = True,
      is_worker_server = True, argv2 = Some ''A'', href_query = []\<rparr>"

definition page_env :: WorkerEnv where
  "page_env =
     \<lparr>is_node = False, document_defined = False, process_send_defined = False,
      is_worker_server = True, argv2 = None, href_query = [(''__m_pArgs'', ''A'')]\<rparr>"

text \<open>A \<open>WebServer\<close> that has been opened on port 10101, has listened and has been closed.\<close>

definition listening_WebServer :: WebServer where
  "listening_WebServer =
     web_step WebListening (web_step (WebOpen 10101) (new_WebServer None None))"

definition closed_WebServer :: WebServer where
  "closed_WebServer =
     web_step WebServerClosed (web_step WebProtocolClosed (web_step WebClose listening_WebServer))"

section \<open>The ready gate of the worker servers\<close>

text \<open>
  C1. In both sources of \<open>WorkerServer\<close>, \<open>inspectReady()\<close> returns null if and only
  if the state is \<open>OPEN\<close>; in every other state it returns an error, and the errors of
  two different states have different messages.
\<close>

theorem inspectReady_gate:
  "(inspectReady_old s = None \<longleftrightarrow> state_old s = OPEN) \<and>
   (inspectReady_new t = None \<longleftrightarrow> state_new t = OPEN) \<and>
   (state_old s \<noteq> OPEN \<longrightarrow> (\<exists>e. inspectReady_old s = Some e)) \<and>
   (state_new t \<noteq> OPEN \<longrightarrow> (\<exists>e. inspectReady_new t = Some e)) \<and>
   (state_old s \<noteq> state_old s' \<longrightarrow>
      map_option message (inspectReady_old s) \<noteq> map_option message (inspectReady_old s')) \<and>
   (state_new t \<noteq> state_new t' \<longrightarrow>
      map_option message (inspectReady_new t) \<noteq> map_option message (inspectReady_new t'))"
proof -
  have old: "inspectReady_old s = None \<longleftrightarrow> state_old s = OPEN" for s
    by (cases "state_old s") (simp_all add: inspectReady_old_def)
  have new: "inspectReady_new t = None \<longleftrightarrow> state_new t = OPEN" for t
    by (cases "state_new t") (simp_all add: inspectReady_new_def)
  have dold: "map_option message (inspectReady_old s) \<noteq> map_option message (inspectReady_old s')"
    if "state_old s \<noteq> state_old s'" for s s'
    using that by (cases "state_old s"; cases "state_old s'") (simp_all add: inspectReady_old_def)
  have dnew: "map_option message (inspectReady_new t) \<noteq> map_option message (inspectReady_new t')"
    if "state_new t \<noteq> state_new t'" for t t'
    using that by (cases "state_new t"; cases "state_new t'") (simp_all add: inspectReady_new_def)
  show ?thesis using old new dold dnew by blast
qed

theorem inspectReady_gate_witness:
  "state_old new_WorkerServer_old \<noteq> OPEN \<and>
   (\<exists>e. inspectReady_old new_WorkerServer_old = Some e) \<and>
   state_new (new_WorkerServer\<lparr>state_new := CLOSING\<rparr>) \<noteq> OPEN \<and>
   (\<exists>e. inspectReady_new (new_WorkerServer\<lparr>state_new := CLOSING\<rparr>) = Some e) \<and>
   state_old new_WorkerServer_old \<noteq> state_old (new_WorkerServer_old\<lparr>state_old := CLOSED\<rparr>) \<and>
   map_option message (inspectReady_old new_WorkerServer_old) \<noteq>
     map_option message (inspectReady_old (new_WorkerServer_old\<lparr>state_old := CLOSED\<rparr>)) \<and>
   state_new (new_WorkerServer\<lparr>state_new := CLOSING\<rparr>) \<noteq>
     state_new (new_WorkerServer\<lparr>state_new := OPENING\<rparr>) \<and>
   map_option message (inspectReady_new (new_WorkerServer\<lparr>state_new := CLOSING\<rparr>)) \<noteq>
     map_option message (inspectReady_new (new_WorkerServer\<lparr>state_new := OPENING\<rparr>))"
  using inspectReady_gate [of new_WorkerServer_old "new_WorkerServer\<lparr>state_new := CLOSING\<rparr>"
      "new_WorkerServer_old\<lparr>state_old := CLOSED\<rparr>" "new_WorkerServer\<lparr>state_new := OPENING\<rparr>"]
  by (simp add: new_WorkerServer_old_def new_WorkerServer_def)

text \<open>
  C10. The ready gates of the two sources of \<open>WorkerServer\<close> agree: in the same state
  they return the same result, with the same message, and the result is of the kind
  the classification names: none in \<open>OPEN\<close>, a \<open>DomainError\<close> in \<open>NONE\<close> and
  \<open>OPENING\<close>, a \<open>RuntimeError\<close> in \<open>CLOSING\<close> and \<open>CLOSED\<close>.
\<close>

theorem inspectReady_old_new_equivalent:
  "state_old s = state_new t \<longrightarrow>
     inspectReady_old s = inspectReady_new t \<and>
     map_option kind (inspectReady_old s) = ready_class (state_old s) \<and>
     map_option kind (inspectReady_new t) = ready_class (state_new t)"
  by (cases "state_old s"; cases "state_new t")
     (simp_all add: inspectReady_old_def inspectReady_new_def)

theorem inspectReady_old_new_equivalent_witness:
  "state_old (new_WorkerServer_old\<lparr>state_old := CLOSING\<rparr>) =
     state_new (new_WorkerServer\<lparr>state_new := CLOSING\<rparr>) \<and>
   inspectReady_old (new_WorkerServer_old\<lparr>state_old := CLOSING\<rparr>) =
     inspectReady_new (new_WorkerServer\<lparr>state_new := CLOSING\<rparr>) \<and>
   map_option kind (inspectReady_new (new_WorkerServer\<lparr>state_new := CLOSING\<rparr>)) =
     Some RuntimeError"
  using inspectReady_old_new_equivalent
    [of "new_WorkerServer_old\<lparr>state_old := CLOSING\<rparr>" "new_WorkerServer\<lparr>state_new := CLOSING\<rparr>"]
  by (simp add: new_WorkerServer_old_def new_WorkerServer_def)

section \<open>close() outside OPEN\<close>

lemma IConnector_inspect_not_OPEN:
  "state \<noteq> OPEN \<Longrightarrow> \<exists>e. IConnector_inspect state method = Some e \<and> (kind e = DomainError \<or> kind e = RuntimeError)"
  by (cases state) (simp_all add: IConnector_inspect_def)

lemma inspectReady_old_not_OPEN:
  "state_old s \<noteq> OPEN \<Longrightarrow> \<exists>e. inspectReady_old s = Some e \<and> (kind e = DomainError \<or> kind e = RuntimeError)"
  by (cases "state_old s") (simp_all add: inspectReady_old_def)

lemma inspectReady_new_not_OPEN:
  "state_new s \<noteq> OPEN \<Longrightarrow> \<exists>e. inspectReady_new s = Some e \<and> (kind e = DomainError \<or> kind e = RuntimeError)"
  by (cases "state_new s") (simp_all add: inspectReady_new_def)

text \<open>
  C2. In a state other than \<open>OPEN\<close>, \<open>close()\<close> of a \<open>WebServer\<close>, a
  \<open>WorkerConnector\<close> or a \<open>WorkerServer\<close> (either source) throws: the error comes
  from the first piece of the method, before any \<open>await\<close> and before anything is
  posted or closed, and the endpoint is left as it was, state and effects.
\<close>

theorem close_not_OPEN_throws:
  "(state_web w \<noteq> OPEN \<longrightarrow>
      (\<exists>e. close_enter_web w = (Some e, w) \<and> close_web w = (Some e, w) \<and> kind e = DomainError)) \<and>
   (state_con c \<noteq> OPEN \<longrightarrow>
      (\<exists>e. close c = (Some e, c) \<and> (kind e = DomainError \<or> kind e = RuntimeError))) \<and>
   (state_old s \<noteq> OPEN \<longrightarrow>
      (\<exists>e. close_enter_old s = (Some e, s) \<and> close_old s = (Some e, s) \<and>
           (kind e = DomainError \<or> kind e = RuntimeError))) \<and>
   (state_new t \<noteq> OPEN \<longrightarrow>
      (\<exists>e. close_enter_new t = (Some e, t) \<and> close_new t = (Some e, t) \<and>
           (kind e = DomainError \<or> kind e = RuntimeError)))"
proof (intro conjI impI)
  assume "state_web w \<noteq> OPEN"
  then show "\<exists>e. close_enter_web w = (Some e, w) \<and> close_web w = (Some e, w) \<and> kind e = DomainError"
    by (simp add: close_web_def close_enter_web_def)
next
  assume "state_con c \<noteq> OPEN"
  then obtain e where "inspectReady ''WorkerConnector.close'' c = Some e"
      and "kind e = DomainError \<or> kind e = RuntimeError"
    unfolding inspectReady_def using IConnector_inspect_not_OPEN by blast
  then show "\<exists>e. close c = (Some e, c) \<and> (kind e = DomainError \<or> kind e = RuntimeError)"
    by (simp add: close_def)
next
  assume "state_old s \<noteq> OPEN"
  from inspectReady_old_not_OPEN [OF this]
  show "\<exists>e. close_enter_old s = (Some e, s) \<and> close_old s = (Some e, s) \<and>
           (kind e = DomainError \<or> kind e = RuntimeError)"
    by (auto simp add: close_old_def close_enter_old_def)
next
  assume "state_new t \<noteq> OPEN"
  from inspectReady_new_not_OPEN [OF this]
  show "\<exists>e. close_enter_new t = (Some e, t) \<and> close_new t = (Some e, t) \<and>
           (kind e = DomainError \<or> kind e = RuntimeError)"
    by (auto simp add: close_new_def close_enter_new_def)
qed

theorem close_not_OPEN_throws_witness:
  "state_web (new_WebServer None None) \<noteq> OPEN \<and>
   (\<exists>e. close_web (new_WebServer None None) = (Some e, new_WebServer None None) \<and> kind e = DomainError) \<and>
   state_con (new_WorkerConnector None) \<noteq> OPEN \<and>
   (\<exists>e. close (new_WorkerConnector None) = (Some e, new_WorkerConnector None)) \<and>
   state_old (new_WorkerServer_old\<lparr>state_old := CLOSED\<rparr>) \<noteq> OPEN \<and>
   (\<exists>e. close_old (new_WorkerServer_old\<lparr>state_old := CLOSED\<rparr>) =
      (Some e, new_WorkerServer_old\<lparr>state_old := CLOSED\<rparr>)) \<and>
   state_new (new_WorkerServer\<lparr>state_new := CLOSING\<rparr>) \<noteq> OPEN \<and>
   (\<exists>e. close_new (new_WorkerServer\<lparr>state_new := CLOSING\<rparr>) =
      (Some e, new_WorkerServer\<lparr>state_new := CLOSING\<rparr>))"
proof -
  have 1: "state_web (new_WebServer None None) \<noteq> OPEN" by (simp add: new_WebServer_def)
  have 2: "state_con (new_WorkerConnector None) \<noteq> OPEN" by (simp add: new_WorkerConnector_def)
  have 3: "state_old (new_WorkerServer_old\<lparr>state_old := CLOSED\<rparr>) \<noteq> OPEN" by simp
  have 4: "state_new (new_WorkerServer\<lparr>state_new := CLOSING\<rparr>) \<noteq> OPEN" by simp
  from 1 2 3 4 close_not_OPEN_throws [of "new_WebServer None None" "new_WorkerConnector None"
      "new_WorkerServer_old\<lparr>state_old := CLOSED\<rparr>" "new_WorkerServer\<lparr>state_new := CLOSING\<rparr>"]
  show ?thesis by blast
qed

section \<open>The first frame of an upgrade\<close>

lemma first_message_decoded:
  "parse (as_string data) = Some w \<Longrightarrow> property w ''header'' = Inr h \<Longrightarrow>
   first_message parse handler req data =
     (if is_string data then [] else [SocketClose]) @
     HandlerCall (WebAcceptor_create req h) #
     (case handler (WebAcceptor_create req h) of Some e \<Rightarrow> [SocketClose] | None \<Rightarrow> [])"
  by (simp add: first_message_def Let_def)

lemma first_message_calls:
  "HandlerCall a \<in> set (first_message parse handler req data) \<Longrightarrow>
   \<exists>w h. parse (as_string data) = Some w \<and> property w ''header'' = Inr h \<and>
         a = WebAcceptor_create req h"
  by (auto simp add: first_message_def Let_def split: option.splits sum.splits if_splits)

lemma first_message_closes:
  "\<not> is_string data \<or> parse (as_string data) = None \<or>
   (\<exists>w e. parse (as_string data) = Some w \<and> property w ''header'' = Inl e) \<or>
   (\<exists>a e. HandlerCall a \<in> set (first_message parse handler req data) \<and> handler a = Some e) \<Longrightarrow>
   SocketClose \<in> set (first_message parse handler req data)"
  by (auto simp add: first_message_def Let_def split: option.splits sum.splits if_splits)

text \<open>
  C9. On the socket of an upgrade, \<open>WebServer.open\<close> consumes exactly the first frame
  as the header envelope. A text frame that decodes (\<open>JSON.parse\<close> succeeds and the
  \<open>header\<close> can be read) gives an acceptor carrying that header, which is passed to
  the user's handler. A frame that is not text, a frame that does not decode and a
  handler that throws each close the socket. The listener is gone after the first
  frame: whatever frame comes next, the server does nothing with it.
\<close>

theorem upgrade_first_frame:
  "(data = Text t \<and> parse t = Some w \<and> property w ''header'' = Inr h \<longrightarrow>
      header (WebAcceptor_create req h) = h \<and>
      steps (on_message parse handler req data handleUpgrade) =
        HandlerCall (WebAcceptor_create req h) #
        (case handler (WebAcceptor_create req h) of Some e \<Rightarrow> [SocketClose] | None \<Rightarrow> [])) \<and>
   (\<not> is_string data \<longrightarrow>
      SocketClose \<in> set (steps (on_message parse handler req data handleUpgrade))) \<and>
   (parse (as_string data) = None \<longrightarrow>
      steps (on_message parse handler req data handleUpgrade) =
        (if is_string data then [] else [SocketClose]) @ [SocketClose]) \<and>
   (HandlerCall a \<in> set (steps (on_message parse handler req data handleUpgrade)) \<and>
    handler a = Some e \<longrightarrow>
      SocketClose \<in> set (steps (on_message parse handler req data handleUpgrade))) \<and>
   \<not> message_listener (on_message parse handler req data handleUpgrade) \<and>
   on_message parse' handler' req' data' (on_message parse handler req data handleUpgrade) =
     on_message parse handler req data handleUpgrade"
proof -
  have st: "steps (on_message parse handler req data handleUpgrade) =
      first_message parse handler req data"
    by (simp add: on_message_def handleUpgrade_def)
  have a: "header (WebAcceptor_create req h) = h \<and>
      first_message parse handler req data =
        HandlerCall (WebAcceptor_create req h) #
        (case handler (WebAcceptor_create req h) of Some e \<Rightarrow> [SocketClose] | None \<Rightarrow> [])"
    if "data = Text t \<and> parse t = Some w \<and> property w ''header'' = Inr h"
    using that first_message_decoded [of parse data w h handler req]
    by (simp add: WebAcceptor_create_def)
  have b: "SocketClose \<in> set (first_message parse handler req data)" if "\<not> is_string data"
    using that first_message_closes [of data parse handler req] by blast
  have c: "first_message parse handler req data =
      (if is_string data then [] else [SocketClose]) @ [SocketClose]"
    if "parse (as_string data) = None"
    using that by (simp add: first_message_def)
  have d: "SocketClose \<in> set (first_message parse handler req data)"
    if "HandlerCall a \<in> set (first_message parse handler req data) \<and> handler a = Some e"
    using that first_message_closes [of data parse handler req] by blast
  have e: "\<not> message_listener (on_message parse handler req data handleUpgrade)"
    by (simp add: on_message_def handleUpgrade_def)
  have f: "on_message parse' handler' req' data' (on_message parse handler req data handleUpgrade) =
      on_message parse handler req data handleUpgrade"
    using e by (simp add: on_message_def)
  show ?thesis
    unfolding st using a b c d e f by blast
qed

theorem upgrade_first_frame_witness:
  "steps (on_message (\<lambda>t. Some (JObject [(''header'', JString t)])) (\<lambda>a. None) ''/calculator''
      (Text ''key'') handleUpgrade) =
     [HandlerCall (WebAcceptor_create ''/calculator'' (Some (JString ''key'')))] \<and>
   SocketClose \<in> set (steps (on_message (\<lambda>t. None) (\<lambda>a. None) ''/calculator''
      (Binary ''010'') handleUpgrade)) \<and>
   steps (on_message (\<lambda>t. None) (\<lambda>a. None) ''/calculator'' (Text ''{'') handleUpgrade) =
     [SocketClose] \<and>
   SocketClose \<in> set (steps (on_message (\<lambda>t. Some (JObject [(''header'', JString t)]))
      (\<lambda>a. Some (Error DomainError ''no'')) ''/calculator'' (Text ''key'') handleUpgrade))"
proof -
  let ?p = "\<lambda>t. Some (JObject [(''header'', JString t)])"
  let ?n = "\<lambda>t::string. None::json option"
  let ?ok = "\<lambda>a::WebAcceptor. None::Error option"
  let ?bad = "\<lambda>a::WebAcceptor. Some (Error DomainError ''no'')"
  let ?acc = "WebAcceptor_create ''/calculator'' (Some (JString ''key''))"
  have 1: "Text ''key'' = Text ''key'' \<and> ?p ''key'' = Some (JObject [(''header'', JString ''key'')]) \<and>
      property (JObject [(''header'', JString ''key'')]) ''header'' = Inr (Some (JString ''key''))"
    by simp
  have 2: "\<not> is_string (Binary ''010'')" by simp
  have 3: "?n (as_string (Text ''{'')) = None" by simp
  have 4: "HandlerCall ?acc \<in> set (steps (on_message ?p ?bad ''/calculator'' (Text ''key'') handleUpgrade))
      \<and> ?bad ?acc = Some (Error DomainError ''no'')"
    by (simp add: on_message_def handleUpgrade_def first_message_def)
  from 1 upgrade_first_frame [of "Text ''key''" "''key''" ?p "JObject [(''header'', JString ''key'')]"
      "Some (JString ''key'')" "''/calculator''" ?ok]
  have A: "steps (on_message ?p ?ok ''/calculator'' (Text ''key'') handleUpgrade) = [HandlerCall ?acc]"
    by simp
  from 2 upgrade_first_frame [of "Binary ''010''" _ ?n _ _ "''/calculator''" ?ok]
  have B: "SocketClose \<in> set (steps (on_message ?n ?ok ''/calculator'' (Binary ''010'') handleUpgrade))"
    by blast
  from 3 upgrade_first_frame [of "Text ''{''" _ ?n _ _ "''/calculator''" ?ok]
  have C: "steps (on_message ?n ?ok ''/calculator'' (Text ''{'') handleUpgrade) = [SocketClose]"
    by simp
  from 4 upgrade_first_frame [of "Text ''key''" _ ?p _ _ "''/calculator''" ?bad ?acc
      "Error DomainError ''no''"]
  have D: "SocketClose \<in> set (steps (on_message ?p ?bad ''/calculator'' (Text ''key'') handleUpgrade))"
    by blast
  from A B C D show ?thesis by blast
qed

section \<open>The header of a worker server\<close>

lemma header_new_funpow_emit [simp]: "header_new (((emit e) ^^ n) s) = header_new s"
  by (induction n) (simp_all add: emit_def)

lemma header_new_funpow_resume [simp]:
  "header_new (((emit e \<circ> open_resume) ^^ n) s) = header_new s"
  by (induction n) (simp_all add: emit_def open_resume_def)

text \<open>
  The newer source does not read the environment. In a child process started with
  the argument \<open>A\<close> the older server's \<open>headers\<close> is the parsed argument; the newer
  server's first \<open>getHeader()\<close> posts the \<open>OPENING\<close> sentinel and waits, and its header
  is the one in the frame the parent answers with, here \<open>B\<close>.
\<close>

theorem header_environment_counterexample:
  "fst (headers_get_old sample_parse node_env new_WorkerServer_old) =
     Inr (JObject [(''header'', JString ''A'')]) \<and>
   fst (getHeader new_WorkerServer) = Waiting \<and>
   trace (snd (getHeader new_WorkerServer)) = [PostMessage (Sentinel OPENING)] \<and>
   fst (getHeader
          (deliver_new sample_parse_frame (Payload ''B'') (snd (getHeader new_WorkerServer)))) =
     Fulfilled (Some (JString ''B''))"
  by (simp add: headers_get_old_def new_WorkerServer_old_def getHeader_def header_get_def
      new_WorkerServer_def emit_def deliver_new_def Handshake_message_def Let_def
      sample_parse_def sample_parse_frame_def node_env_def)

text \<open>
  C8, amended. Neither source parses anything when the server is constructed. The
  older \<open>WorkerServer\<close> parses, at the first access to \<open>headers\<close>, the command-line
  argument under node and the variable \<open>__m_pArgs\<close> of the URL otherwise, and keeps
  the parsed value: a later access returns it whatever the parser and the environment
  are, so nothing is parsed again. The newer \<open>WorkerServer\<close> posts the \<open>OPENING\<close>
  sentinel at the first \<open>getHeader()\<close> and waits for the parent's frame; its header is
  the \<open>header\<close> of that frame, parsed; and the promise is kept, so that a later
  \<open>getHeader()\<close> returns it and changes nothing.
\<close>

theorem header_lazy_cached:
  "headers_old new_WorkerServer_old = None \<and>
   header_new new_WorkerServer = None \<and>
   (headers_old s = None \<and> is_node env \<and>
    parse (case argv2 env of None \<Rightarrow> ''undefined'' | Some a \<Rightarrow> a) = Some j \<longrightarrow>
      headers_get_old parse env s = (Inr j, s\<lparr>headers_old := Some j\<rparr>)) \<and>
   (headers_old s = None \<and> \<not> is_node env \<and> URLVariables_get env ''__m_pArgs'' = Inr a \<and>
    parse a = Some j \<longrightarrow>
      headers_get_old parse env s = (Inr j, s\<lparr>headers_old := Some j\<rparr>)) \<and>
   (headers_old s = Some j \<longrightarrow> headers_get_old parse' env' s = (Inr j, s)) \<and>
   (header_new t = None \<longrightarrow>
      getHeader t =
        (Waiting,
         (emit (PostMessage (Sentinel OPENING)) t)
           \<lparr>header_new := Some Waiting, onmessage_new := HandshakeOnce\<rparr>)) \<and>
   (onmessage_new t = HandshakeOnce \<and> fparse data = Some w \<and> property w ''header'' = Inr h \<longrightarrow>
      header_new (deliver_new fparse data t) = Some (Fulfilled h)) \<and>
   (header_new t = Some p \<longrightarrow> getHeader t = (p, t))"
proof (intro conjI impI)
  show "headers_old new_WorkerServer_old = None"
    by (simp add: new_WorkerServer_old_def)
  show "header_new new_WorkerServer = None"
    by (simp add: new_WorkerServer_def)
next
  assume "headers_old s = None \<and> is_node env \<and>
    parse (case argv2 env of None \<Rightarrow> ''undefined'' | Some a \<Rightarrow> a) = Some j"
  then show "headers_get_old parse env s = (Inr j, s\<lparr>headers_old := Some j\<rparr>)"
    by (simp add: headers_get_old_def)
next
  assume "headers_old s = None \<and> \<not> is_node env \<and> URLVariables_get env ''__m_pArgs'' = Inr a \<and>
    parse a = Some j"
  then show "headers_get_old parse env s = (Inr j, s\<lparr>headers_old := Some j\<rparr>)"
    by (simp add: headers_get_old_def)
next
  assume "headers_old s = Some j"
  then show "headers_get_old parse' env' s = (Inr j, s)"
    by (simp add: headers_get_old_def)
next
  assume "header_new t = None"
  then show "getHeader t =
        (Waiting,
         (emit (PostMessage (Sentinel OPENING)) t)
           \<lparr>header_new := Some Waiting, onmessage_new := HandshakeOnce\<rparr>)"
    by (simp add: getHeader_def header_get_def Let_def)
next
  assume "onmessage_new t = HandshakeOnce \<and> fparse data = Some w \<and> property w ''header'' = Inr h"
  then show "header_new (deliver_new fparse data t) = Some (Fulfilled h)"
    by (simp add: deliver_new_def Handshake_message_def Let_def)
next
  assume "header_new t = Some p"
  then show "getHeader t = (p, t)"
    by (simp add: getHeader_def header_get_def Let_def)
qed

theorem header_lazy_cached_witness:
  "headers_get_old sample_parse node_env new_WorkerServer_old =
     (Inr (JObject [(''header'', JString ''A'')]),
      new_WorkerServer_old\<lparr>headers_old := Some (JObject [(''header'', JString ''A'')])\<rparr>) \<and>
   headers_get_old sample_parse page_env new_WorkerServer_old =
     (Inr (JObject [(''header'', JString ''A'')]),
      new_WorkerServer_old\<lparr>headers_old := Some (JObject [(''header'', JString ''A'')])\<rparr>) \<and>
   headers_get_old (\<lambda>t. None) page_env (new_WorkerServer_old\<lparr>headers_old := Some JNull\<rparr>) =
     (Inr JNull, new_WorkerServer_old\<lparr>headers_old := Some JNull\<rparr>) \<and>
   fst (getHeader new_WorkerServer) = Waiting \<and>
   header_new (deliver_new sample_parse_frame (Payload ''B'') (snd (getHeader new_WorkerServer))) =
     Some (Fulfilled (Some (JString ''B''))) \<and>
   getHeader (new_WorkerServer\<lparr>header_new := Some (Fulfilled None)\<rparr>) =
     (Fulfilled None, new_WorkerServer\<lparr>header_new := Some (Fulfilled None)\<rparr>)"
proof -
  let ?j = "JObject [(''header'', JString ''A'')]"
  let ?t = "snd (getHeader new_WorkerServer)"
  have 1: "headers_old new_WorkerServer_old = None \<and> is_node node_env \<and>
      sample_parse (case argv2 node_env of None \<Rightarrow> ''undefined'' | Some a \<Rightarrow> a) = Some ?j"
    by (simp add: new_WorkerServer_old_def node_env_def sample_parse_def)
  have 2: "headers_old new_WorkerServer_old = None \<and> \<not> is_node page_env \<and>
      URLVariables_get page_env ''__m_pArgs'' = Inr ''A'' \<and> sample_parse ''A'' = Some ?j"
    by (simp add: new_WorkerServer_old_def page_env_def sample_parse_def URLVariables_get_def)
  have 3: "headers_old (new_WorkerServer_old\<lparr>headers_old := Some JNull\<rparr>) = Some JNull"
    by simp
  have 4: "header_new new_WorkerServer = None"
    by (simp add: new_WorkerServer_def)
  have 5: "onmessage_new ?t = HandshakeOnce \<and>
      sample_parse_frame (Payload ''B'') = Some (JObject [(''header'', JString ''B'')]) \<and>
      property (JObject [(''header'', JString ''B'')]) ''header'' = Inr (Some (JString ''B''))"
    by (simp add: getHeader_def header_get_def new_WorkerServer_def Let_def
        sample_parse_frame_def sample_parse_def)
  have 6: "header_new (new_WorkerServer\<lparr>header_new := Some (Fulfilled None)\<rparr>) =
      Some (Fulfilled None)"
    by simp
  from 1 header_lazy_cached [of new_WorkerServer_old node_env sample_parse ?j]
  have A: "headers_get_old sample_parse node_env new_WorkerServer_old =
      (Inr ?j, new_WorkerServer_old\<lparr>headers_old := Some ?j\<rparr>)"
    by blast
  from 2 header_lazy_cached [of new_WorkerServer_old page_env sample_parse ?j "''A''"]
  have B: "headers_get_old sample_parse page_env new_WorkerServer_old =
      (Inr ?j, new_WorkerServer_old\<lparr>headers_old := Some ?j\<rparr>)"
    by blast
  from 3 header_lazy_cached [of "new_WorkerServer_old\<lparr>headers_old := Some JNull\<rparr>" _ _ JNull
      _ "\<lambda>t. None" page_env]
  have C: "headers_get_old (\<lambda>t. None) page_env (new_WorkerServer_old\<lparr>headers_old := Some JNull\<rparr>) =
      (Inr JNull, new_WorkerServer_old\<lparr>headers_old := Some JNull\<rparr>)"
    by blast
  from 4 header_lazy_cached [of _ _ _ _ _ _ _ new_WorkerServer]
  have D: "fst (getHeader new_WorkerServer) = Waiting"
    by simp
  from 5 header_lazy_cached [of _ _ _ _ _ _ _ ?t sample_parse_frame "Payload ''B''"
      "JObject [(''header'', JString ''B'')]" "Some (JString ''B'')"]
  have E: "header_new (deliver_new sample_parse_frame (Payload ''B'') ?t) =
      Some (Fulfilled (Some (JString ''B'')))"
    by blast
  from 6 header_lazy_cached [of _ _ _ _ _ _ _ "new_WorkerServer\<lparr>header_new := Some (Fulfilled None)\<rparr>"
      _ _ _ _ "Fulfilled None"]
  have F: "getHeader (new_WorkerServer\<lparr>header_new := Some (Fulfilled None)\<rparr>) =
      (Fulfilled None, new_WorkerServer\<lparr>header_new := Some (Fulfilled None)\<rparr>)"
    by blast
  from A B C D E F show ?thesis by blast
qed

section \<open>The CLOSING sentinel\<close>

subsection \<open>What the handshake handler of the newer server does\<close>







section \<open>Opening a server again\<close>

subsection \<open>What the events of a WebServer keep\<close>

lemma funpow_listening_handler:
  "(listening_handler ^^ n) s =
     (if n = 0 then s
      else s\<lparr>state_web := OPEN,
             server_web := (server_web s)
               \<lparr>empty_error_listeners := empty_error_listeners (server_web s) + n\<rparr>,
             trace_web := trace_web s @ replicate n Resolve\<rparr>)"
  (is "?lhs n = ?rhs n")
proof (induction n)
  case 0
  show ?case by simp
next
  case (Suc n)
  have "?lhs (Suc n) = listening_handler (?lhs n)"
    by simp
  also have "\<dots> = listening_handler (?rhs n)"
    by (simp only: Suc)
  also have "\<dots> = ?rhs (Suc n)"
    by (simp add: listening_handler_def replicate_append_same)
  finally show ?case .
qed

lemma funpow_error_handler:
  "(error_handler e ^^ n) s =
     (if n = 0 then s
      else s\<lparr>state_web := NONE, trace_web := trace_web s @ replicate n (Reject e)\<rparr>)"
  (is "?lhs n = ?rhs n")
proof (induction n)
  case 0
  show ?case by simp
next
  case (Suc n)
  have "?lhs (Suc n) = error_handler e (?lhs n)"
    by simp
  also have "\<dots> = error_handler e (?rhs n)"
    by (simp only: Suc)
  also have "\<dots> = ?rhs (Suc n)"
    by (simp add: error_handler_def replicate_append_same)
  finally show ?case .
qed

lemma web_step_serial:
  "serial (server_web s) < created_web s \<Longrightarrow>
   serial (server_web (web_step ev s)) < created_web (web_step ev s)"
  by (cases ev)
     (auto simp add: open_web_def Open_web_def Let_def createServer_def close_enter_web_def
       close_protocol_web_def close_leave_web_def on_listening_def on_error_def
       funpow_listening_handler funpow_error_handler)

lemma web_step_secure:
  "secure (server_web (web_step ev s)) = secure (server_web s)"
  by (cases ev)
     (auto simp add: open_web_def Open_web_def Let_def createServer_def close_enter_web_def
       close_protocol_web_def close_leave_web_def on_listening_def on_error_def
       funpow_listening_handler funpow_error_handler)

lemma new_WebServer_server:
  "state_web (new_WebServer key cert) = NONE \<and>
   (\<exists>b. server_web (new_WebServer key cert) = createServer b 0)"
  by (auto simp add: new_WebServer_def split: option.split list.split)

lemma reachable_web_server:
  "reachable web_enabled web_step (new_WebServer key cert) s \<Longrightarrow>
   serial (server_web s) < created_web s \<and>
   secure (server_web s) = secure (server_web (new_WebServer key cert))"
proof (induction rule: reachable.induct)
  case start
  show ?case
    by (simp add: new_WebServer_def createServer_def split: option.splits list.splits)
next
  case (after s e)
  then show ?case
    using web_step_serial [of s e] web_step_secure [of e s] by simp
qed

text \<open>
  A \<open>WorkerServer\<close> in a child process of node, opened and closed: it is \<open>CLOSED\<close>,
  and \<open>open()\<close> called again throws and leaves it \<open>CLOSED\<close>.
\<close>

theorem worker_server_reopen_counterexample:
  "state_old (snd (close_old (snd (open_old node_env None new_WorkerServer_old)))) = CLOSED \<and>
   open_old node_env None (snd (close_old (snd (open_old node_env None new_WorkerServer_old)))) =
     (Some (Error DomainError ''Error on WorkerServer.open(): the server has been opened yet.''),
      snd (close_old (snd (open_old node_env None new_WorkerServer_old))))"
  by (simp add: open_old_def open_body_old_def node_env_def new_WorkerServer_old_def
      close_old_def close_enter_old_def close_leave_old_def close_timer_old_def
      inspectReady_old_def destructor_def emit_def)

text \<open>
  C5, amended. A \<open>WebServer\<close> that is \<open>CLOSED\<close> accepts \<open>open()\<close> again: a new
  server object replaces the old one (its identity is that of no object made
  before), with the listeners and the port of a first \<open>open()\<close>, the state is
  \<open>OPENING\<close>, and the report of \<open>listening\<close> makes it \<open>OPEN\<close>. A \<open>WorkerServer\<close>
  (either source) under node cannot be opened again: in \<open>CLOSED\<close> its \<open>open()\<close> throws
  a \<open>DomainError\<close> and leaves the server as it was.
\<close>

theorem reopen_from_CLOSED:
  "(reachable web_enabled web_step (new_WebServer key cert) w \<and> state_web w = CLOSED \<longrightarrow>
      fst (open_web port w) = None \<and>
      state_web (snd (open_web port w)) = OPENING \<and>
      serial (server_web (snd (open_web port w))) \<noteq> serial (server_web w) \<and>
      server_web (snd (open_web port w)) =
        (server_web (snd (open_web port (new_WebServer key cert))))\<lparr>serial := created_web w\<rparr> \<and>
      state_web (on_listening (snd (open_web port w))) = OPEN) \<and>
   (is_node env \<and> process_send_defined env \<and> state_old s = CLOSED \<longrightarrow>
      open_old env prov s =
        (Some (Error DomainError ''Error on WorkerServer.open(): the server has been opened yet.''),
         s)) \<and>
   (is_node env \<and> is_worker_server env \<and> state_new t = CLOSED \<longrightarrow>
      open_new env prov t =
        (Some (Error DomainError ''Error on WorkerServer.open(): the server has been opened yet.''),
         t))"
proof (intro conjI impI)
  assume a: "reachable web_enabled web_step (new_WebServer key cert) w \<and> state_web w = CLOSED"
  then have inv: "serial (server_web w) < created_web w"
    and sec: "secure (server_web w) = secure (server_web (new_WebServer key cert))"
    using reachable_web_server [of key cert w] by simp_all
  from a show "fst (open_web port w) = None"
    by (simp add: open_web_def Let_def)
  from a show "state_web (snd (open_web port w)) = OPENING"
    by (simp add: open_web_def Open_web_def Let_def)
  from a inv show "serial (server_web (snd (open_web port w))) \<noteq> serial (server_web w)"
    by (simp add: open_web_def Open_web_def Let_def createServer_def)
  obtain b where first: "state_web (new_WebServer key cert) = NONE"
      "server_web (new_WebServer key cert) = createServer b 0"
    using new_WebServer_server [of key cert] by blast
  from a sec first show "server_web (snd (open_web port w)) =
      (server_web (snd (open_web port (new_WebServer key cert))))\<lparr>serial := created_web w\<rparr>"
    by (simp add: open_web_def Open_web_def Let_def createServer_def)
  from a show "state_web (on_listening (snd (open_web port w))) = OPEN"
    by (simp add: open_web_def Open_web_def Let_def createServer_def on_listening_def
        listening_handler_def)
next
  assume "is_node env \<and> process_send_defined env \<and> state_old s = CLOSED"
  then show "open_old env prov s =
      (Some (Error DomainError ''Error on WorkerServer.open(): the server has been opened yet.''), s)"
    by (simp add: open_old_def)
next
  assume "is_node env \<and> is_worker_server env \<and> state_new t = CLOSED"
  then show "open_new env prov t =
      (Some (Error DomainError ''Error on WorkerServer.open(): the server has been opened yet.''), t)"
    by (simp add: open_new_def)
qed

lemma listening_WebServer_reachable:
  shows "reachable web_enabled web_step (new_WebServer None None) listening_WebServer"
    and "state_web listening_WebServer = OPEN"
proof -
  let ?w0 = "new_WebServer None None"
  let ?w1 = "web_step (WebOpen 10101) ?w0"
  have r1: "reachable web_enabled web_step ?w0 ?w1"
    by (rule reachable.after [OF reachable.start]) simp
  have s1: "state_web ?w1 = OPENING" "listening_listeners (server_web ?w1) = 1"
    by (simp_all add: new_WebServer_def open_web_def Open_web_def Let_def createServer_def)
  have r2: "reachable web_enabled web_step ?w0 (web_step WebListening ?w1)"
    by (rule reachable.after [OF r1]) (use s1 in simp)
  have s2: "state_web (web_step WebListening ?w1) = OPEN"
    using s1 by (simp add: on_listening_def listening_handler_def)
  from r2 show "reachable web_enabled web_step (new_WebServer None None) listening_WebServer"
    by (simp add: listening_WebServer_def)
  from s2 show "state_web listening_WebServer = OPEN"
    by (simp add: listening_WebServer_def)
qed

lemma closed_WebServer_reachable:
  shows "reachable web_enabled web_step (new_WebServer None None) closed_WebServer"
    and "state_web closed_WebServer = CLOSED"
proof -
  let ?w0 = "new_WebServer None None"
  let ?w3 = "web_step WebClose listening_WebServer"
  let ?w4 = "web_step WebProtocolClosed ?w3"
  have r3: "reachable web_enabled web_step ?w0 ?w3"
    by (rule reachable.after [OF listening_WebServer_reachable(1)]) simp
  have s3: "state_web ?w3 = CLOSING"
    by (simp add: close_enter_web_def listening_WebServer_reachable(2))
  have r4: "reachable web_enabled web_step ?w0 ?w4"
    by (rule reachable.after [OF r3]) (use s3 in simp)
  have s4: "state_web ?w4 = CLOSING"
    using s3 by (simp add: close_protocol_web_def)
  have r5: "reachable web_enabled web_step ?w0 (web_step WebServerClosed ?w4)"
    by (rule reachable.after [OF r4]) (use s4 in simp)
  have s5: "state_web (web_step WebServerClosed ?w4) = CLOSED"
    by (simp add: close_leave_web_def)
  from r5 show "reachable web_enabled web_step (new_WebServer None None) closed_WebServer"
    by (simp add: closed_WebServer_def)
  from s5 show "state_web closed_WebServer = CLOSED"
    by (simp add: closed_WebServer_def)
qed

theorem reopen_from_CLOSED_witness:
  "reachable web_enabled web_step (new_WebServer None None) closed_WebServer \<and>
   state_web closed_WebServer = CLOSED \<and>
   fst (open_web 10101 closed_WebServer) = None \<and>
   state_web (snd (open_web 10101 closed_WebServer)) = OPENING \<and>
   serial (server_web (snd (open_web 10101 closed_WebServer))) \<noteq>
     serial (server_web closed_WebServer) \<and>
   state_web (on_listening (snd (open_web 10101 closed_WebServer))) = OPEN \<and>
   is_node node_env \<and> process_send_defined node_env \<and> is_worker_server node_env \<and>
   state_old (new_WorkerServer_old\<lparr>state_old := CLOSED\<rparr>) = CLOSED \<and>
   fst (open_old node_env None (new_WorkerServer_old\<lparr>state_old := CLOSED\<rparr>)) =
     Some (Error DomainError ''Error on WorkerServer.open(): the server has been opened yet.'') \<and>
   state_new (new_WorkerServer\<lparr>state_new := CLOSED\<rparr>) = CLOSED \<and>
   fst (open_new node_env None (new_WorkerServer\<lparr>state_new := CLOSED\<rparr>)) =
     Some (Error DomainError ''Error on WorkerServer.open(): the server has been opened yet.'')"
proof -
  have env: "is_node node_env \<and> process_send_defined node_env \<and> is_worker_server node_env"
    by (simp add: node_env_def)
  have old: "state_old (new_WorkerServer_old\<lparr>state_old := CLOSED\<rparr>) = CLOSED" by simp
  have new: "state_new (new_WorkerServer\<lparr>state_new := CLOSED\<rparr>) = CLOSED" by simp
  note inst = reopen_from_CLOSED [of None None closed_WebServer 10101 node_env
      "new_WorkerServer_old\<lparr>state_old := CLOSED\<rparr>" None
      "new_WorkerServer\<lparr>state_new := CLOSED\<rparr>"]
  from inst closed_WebServer_reachable
  have web: "fst (open_web 10101 closed_WebServer) = None \<and>
      state_web (snd (open_web 10101 closed_WebServer)) = OPENING \<and>
      serial (server_web (snd (open_web 10101 closed_WebServer))) \<noteq>
        serial (server_web closed_WebServer) \<and>
      state_web (on_listening (snd (open_web 10101 closed_WebServer))) = OPEN"
    by blast
  from inst env old
  have "open_old node_env None (new_WorkerServer_old\<lparr>state_old := CLOSED\<rparr>) =
      (Some (Error DomainError ''Error on WorkerServer.open(): the server has been opened yet.''),
       new_WorkerServer_old\<lparr>state_old := CLOSED\<rparr>)"
    by blast
  then have o: "fst (open_old node_env None (new_WorkerServer_old\<lparr>state_old := CLOSED\<rparr>)) =
      Some (Error DomainError ''Error on WorkerServer.open(): the server has been opened yet.'')"
    by simp
  from inst env new
  have "open_new node_env None (new_WorkerServer\<lparr>state_new := CLOSED\<rparr>) =
      (Some (Error DomainError ''Error on WorkerServer.open(): the server has been opened yet.''),
       new_WorkerServer\<lparr>state_new := CLOSED\<rparr>)"
    by blast
  then have n: "fst (open_new node_env None (new_WorkerServer\<lparr>state_new := CLOSED\<rparr>)) =
      Some (Error DomainError ''Error on WorkerServer.open(): the server has been opened yet.'')"
    by simp
  from closed_WebServer_reachable web env old new o n show ?thesis by blast
qed

section \<open>A failure while opening\<close>

subsection \<open>Invariants of the runs\<close>

lemma web_step_listeners:
  assumes "state_web s = OPENING \<longrightarrow>
      0 < error_listeners (server_web s) \<and> 0 < listening_listeners (server_web s)"
    and "web_enabled ev s"
  shows "state_web (web_step ev s) = OPENING \<longrightarrow>
      0 < error_listeners (server_web (web_step ev s)) \<and>
      0 < listening_listeners (server_web (web_step ev s))"
  using assms
  by (cases ev)
     (auto simp add: open_web_def Open_web_def Let_def createServer_def close_enter_web_def
       close_protocol_web_def close_leave_web_def on_listening_def on_error_def
       funpow_listening_handler funpow_error_handler)

lemma reachable_web_listeners:
  "reachable web_enabled web_step (new_WebServer key cert) s \<Longrightarrow>
   state_web s = OPENING \<longrightarrow>
     0 < error_listeners (server_web s) \<and> 0 < listening_listeners (server_web s)"
proof (induction rule: reachable.induct)
  case start
  show ?case using new_WebServer_server [of key cert] by simp
next
  case (after s e)
  then show ?case using web_step_listeners [of s e] by blast
qed

lemma Test_connection_None:
  "Test_connection m s = None \<longleftrightarrow> worker_con s = None \<or> state_con s = CLOSED"
  by (simp add: Test_connection_def)

lemma con_step_invariant:
  assumes "worker_con s = None \<longrightarrow> state_con s = NONE"
    and "state_con s \<noteq> OPEN \<and> state_con s \<noteq> CLOSING \<longrightarrow> pending s = []"
    and "con_enabled ev s"
  shows "(worker_con (con_step h ev s) = None \<longrightarrow> state_con (con_step h ev s) = NONE) \<and>
    (state_con (con_step h ev s) \<noteq> OPEN \<and> state_con (con_step h ev s) \<noteq> CLOSING \<longrightarrow>
       pending (con_step h ev s) = [])"
proof (cases ev)
  case (ConConnect jsf hdrs)
  with assms show ?thesis
    by (auto simp add: connect_def Connect_def Let_def Test_connection_def
        split: option.splits sum.splits)
next
  case (ConCompile content hdrs)
  with assms show ?thesis
    by (auto simp add: compile_enter_def split: option.splits)
next
  case (ConCompiled content hdrs)
  with assms show ?thesis
    by (auto simp add: compile_resume_def Connect_def Let_def emit_def
        split: option.splits sum.splits)
next
  case ConClose
  with assms show ?thesis
    by (cases "state_con s")
       (auto simp add: close_def inspectReady_def IConnector_inspect_def Let_def emit_def
         split: option.splits)
next
  case (ConCall invoke)
  with assms show ?thesis
    by (cases "state_con s")
       (auto simp add: sendCall_def sendData_def inspectReady_def IConnector_inspect_def emit_def
         split: option.splits)
next
  case (ConFrame data)
  with assms show ?thesis
    by (auto simp add: Handle_message_def Handle_close_def call_connector_def destructor_def
        replyData_def emit_def
        split: option.splits prod.splits Awaiter.splits bool.splits if_splits)
qed

lemma reachable_con_invariant:
  "reachable con_enabled (con_step h) (new_WorkerConnector prov) s \<Longrightarrow>
   (worker_con s = None \<longrightarrow> state_con s = NONE) \<and>
   (state_con s \<noteq> OPEN \<and> state_con s \<noteq> CLOSING \<longrightarrow> pending s = [])"
proof (induction rule: reachable.induct)
  case start
  show ?case by (simp add: new_WorkerConnector_def)
next
  case (after s e)
  from after.IH after.hyps(2) show ?case
    by (intro con_step_invariant) simp_all
qed

text \<open>
  A connector whose worker cannot be spawned, and a \<open>WebServer\<close> whose port is taken:
  \<open>connect()\<close> is rejected and the connector is in \<open>NONE\<close>; the server was
  \<open>OPENING\<close>, the promise of \<open>open()\<close> is rejected and the server is in \<open>NONE\<close>.
  Neither is \<open>CLOSED\<close>.
\<close>

theorem failed_opening_counterexample:
  "fst (connect sample_execute [] ''{}'' (new_WorkerConnector None)) =
     Some (Error RuntimeError ''cannot spawn the worker'') \<and>
   state_con (snd (connect sample_execute [] ''{}'' (new_WorkerConnector None))) = NONE \<and>
   state_web (snd (open_web 10101 (new_WebServer None None))) = OPENING \<and>
   state_web (on_error (Error RuntimeError ''EADDRINUSE'')
      (snd (open_web 10101 (new_WebServer None None)))) = NONE \<and>
   trace_web (on_error (Error RuntimeError ''EADDRINUSE'')
      (snd (open_web 10101 (new_WebServer None None)))) =
     [Reject (Error RuntimeError ''EADDRINUSE'')]"
  by (simp add: connect_def Connect_def Test_connection_def new_WorkerConnector_def
      sample_execute_def Let_def open_web_def Open_web_def new_WebServer_def createServer_def
      on_error_def error_handler_def)

text \<open>
  C4, amended. When \<open>Compiler.execute\<close> throws inside \<open>connect()\<close> (the connector
  is \<open>CONNECTING\<close> at that moment), the promise rejects with that error and the
  connector is left in \<open>NONE\<close> with an empty pending-call table. The same holds for
  \<open>compile()\<close>, when it goes on after \<open>Compiler.compile\<close> and the connector is still
  as \<open>compile()\<close> tested it (without a worker, or \<open>CLOSED\<close>): the promise rejects,
  the temporary file is removed, and the connector is left in \<open>NONE\<close> with an empty
  pending-call table. When the server reports an error while a \<open>WebServer\<close> is
  \<open>OPENING\<close>, the promise of \<open>open()\<close> is rejected with it and the server is left in
  \<open>NONE\<close>.
\<close>

theorem failed_opening_ends_in_NONE:
  "(reachable con_enabled (con_step h) (new_WorkerConnector prov) c \<and>
    (worker_con c = None \<or> state_con c = CLOSED) \<and> execute h jsf hdrs = Inl e \<longrightarrow>
      fst (connect (execute h) jsf hdrs c) = Some e \<and>
      state_con (snd (connect (execute h) jsf hdrs c)) = NONE \<and>
      pending (snd (connect (execute h) jsf hdrs c)) = []) \<and>
   (reachable con_enabled (con_step h) (new_WorkerConnector prov) c \<and>
    (content, hdrs) \<in> set (compiling_con c) \<and>
    (worker_con c = None \<or> state_con c = CLOSED) \<and>
    compiler h content = Inr path \<and> execute h path hdrs = Inl e \<longrightarrow>
      fst (compile_resume (compiler h) (execute h) content hdrs c) = Some e \<and>
      state_con (snd (compile_resume (compiler h) (execute h) content hdrs c)) = NONE \<and>
      pending (snd (compile_resume (compiler h) (execute h) content hdrs c)) = [] \<and>
      trace (snd (compile_resume (compiler h) (execute h) content hdrs c)) =
        trace c @ [Remove path]) \<and>
   (reachable web_enabled web_step (new_WebServer key cert) w \<and> state_web w = OPENING \<longrightarrow>
      state_web (on_error e w) = NONE \<and> Reject e \<in> set (trace_web (on_error e w)))"
proof (intro conjI impI)
  assume a: "reachable con_enabled (con_step h) (new_WorkerConnector prov) c \<and>
    (worker_con c = None \<or> state_con c = CLOSED) \<and> execute h jsf hdrs = Inl e"
  then have t: "Test_connection ''connect'' c = None"
    by (simp add: Test_connection_None)
  from a have p: "pending c = []"
    using reachable_con_invariant [of h prov c] by auto
  from a t show "fst (connect (execute h) jsf hdrs c) = Some e"
    by (simp add: connect_def Connect_def Let_def)
  from a t show "state_con (snd (connect (execute h) jsf hdrs c)) = NONE"
    by (simp add: connect_def Connect_def Let_def)
  from a t p show "pending (snd (connect (execute h) jsf hdrs c)) = []"
    by (simp add: connect_def Connect_def Let_def)
next
  assume a: "reachable con_enabled (con_step h) (new_WorkerConnector prov) c \<and>
    (content, hdrs) \<in> set (compiling_con c) \<and>
    (worker_con c = None \<or> state_con c = CLOSED) \<and>
    compiler h content = Inr path \<and> execute h path hdrs = Inl e"
  from a have p: "pending c = []"
    using reachable_con_invariant [of h prov c] by auto
  from a show "fst (compile_resume (compiler h) (execute h) content hdrs c) = Some e"
    by (simp add: compile_resume_def Connect_def Let_def)
  from a show "state_con (snd (compile_resume (compiler h) (execute h) content hdrs c)) = NONE"
    by (simp add: compile_resume_def Connect_def Let_def emit_def)
  from a p show "pending (snd (compile_resume (compiler h) (execute h) content hdrs c)) = []"
    by (simp add: compile_resume_def Connect_def Let_def emit_def)
  from a show "trace (snd (compile_resume (compiler h) (execute h) content hdrs c)) =
      trace c @ [Remove path]"
    by (simp add: compile_resume_def Connect_def Let_def emit_def)
next
  assume a: "reachable web_enabled web_step (new_WebServer key cert) w \<and> state_web w = OPENING"
  then have l: "0 < error_listeners (server_web w)"
    using reachable_web_listeners [of key cert w] by simp
  from l show "state_web (on_error e w) = NONE"
    by (simp add: on_error_def funpow_error_handler)
  from l show "Reject e \<in> set (trace_web (on_error e w))"
    by (simp add: on_error_def funpow_error_handler)
qed

theorem failed_opening_ends_in_NONE_witness:
  "reachable con_enabled (con_step sample_host) (new_WorkerConnector None) (new_WorkerConnector None) \<and>
   worker_con (new_WorkerConnector None) = None \<and>
   execute sample_host [] ''{}'' = Inl (Error RuntimeError ''cannot spawn the worker'') \<and>
   state_con (snd (connect (execute sample_host) [] ''{}'' (new_WorkerConnector None))) = NONE \<and>
   pending (snd (connect (execute sample_host) [] ''{}'' (new_WorkerConnector None))) = [] \<and>
   reachable con_enabled (con_step (sample_host\<lparr>execute := \<lambda>f h. Inl (Error RuntimeError ''no'')\<rparr>))
     (new_WorkerConnector None)
     (snd (compile_enter ''code'' ''{}'' (new_WorkerConnector None))) \<and>
   (''code'', ''{}'') \<in> set (compiling_con (snd (compile_enter ''code'' ''{}'' (new_WorkerConnector None)))) \<and>
   worker_con (snd (compile_enter ''code'' ''{}'' (new_WorkerConnector None))) = None \<and>
   compiler sample_host ''code'' = Inr ''tmp.js'' \<and>
   fst (compile_resume (compiler sample_host) (\<lambda>f h. Inl (Error RuntimeError ''no''))
      ''code'' ''{}'' (snd (compile_enter ''code'' ''{}'' (new_WorkerConnector None)))) =
     Some (Error RuntimeError ''no'') \<and>
   state_con (snd (compile_resume (compiler sample_host) (\<lambda>f h. Inl (Error RuntimeError ''no''))
      ''code'' ''{}'' (snd (compile_enter ''code'' ''{}'' (new_WorkerConnector None))))) = NONE \<and>
   trace (snd (compile_resume (compiler sample_host) (\<lambda>f h. Inl (Error RuntimeError ''no''))
      ''code'' ''{}'' (snd (compile_enter ''code'' ''{}'' (new_WorkerConnector None))))) =
     [Remove ''tmp.js''] \<and>
   reachable web_enabled web_step (new_WebServer None None)
     (web_step (WebOpen 10101) (new_WebServer None None)) \<and>
   state_web (web_step (WebOpen 10101) (new_WebServer None None)) = OPENING \<and>
   state_web (on_error (Error RuntimeError ''EADDRINUSE'')
     (web_step (WebOpen 10101) (new_WebServer None None))) = NONE"
proof -
  let ?c = "new_WorkerConnector None"
  let ?h2 = "sample_host\<lparr>execute := \<lambda>f h. Inl (Error RuntimeError ''no'')\<rparr>"
  let ?c2 = "snd (compile_enter ''code'' ''{}'' ?c)"
  let ?w = "web_step (WebOpen 10101) (new_WebServer None None)"
  have r: "reachable con_enabled (con_step sample_host) ?c ?c"
    by (rule reachable.start)
  have "reachable con_enabled (con_step ?h2) ?c (con_step ?h2 (ConCompile ''code'' ''{}'') ?c)"
    by (rule reachable.after [OF reachable.start]) simp
  then have r2: "reachable con_enabled (con_step ?h2) ?c ?c2"
    by simp
  have w: "worker_con ?c = None"
    by (simp add: new_WorkerConnector_def)
  have c2: "(''code'', ''{}'') \<in> set (compiling_con ?c2) \<and> worker_con ?c2 = None \<and>
      trace ?c2 = []"
    by (simp add: compile_enter_def Test_connection_def new_WorkerConnector_def)
  have x: "execute sample_host [] ''{}'' = Inl (Error RuntimeError ''cannot spawn the worker'')"
    by (simp add: sample_host_def sample_execute_def)
  have y: "compiler ?h2 ''code'' = Inr ''tmp.js'' \<and> compiler sample_host ''code'' = Inr ''tmp.js'' \<and>
      execute ?h2 ''tmp.js'' ''{}'' = Inl (Error RuntimeError ''no'') \<and>
      execute ?h2 = (\<lambda>f h. Inl (Error RuntimeError ''no''))"
    by (simp add: sample_host_def)
  have rw: "reachable web_enabled web_step (new_WebServer None None) ?w"
    by (rule reachable.after [OF reachable.start]) simp
  have sw: "state_web ?w = OPENING"
    by (simp add: new_WebServer_def open_web_def Open_web_def Let_def createServer_def)
  from r w x failed_opening_ends_in_NONE [where h = sample_host and prov = None and c = ?c
      and jsf = "[]" and hdrs = "''{}''" and e = "Error RuntimeError ''cannot spawn the worker''"]
  have A: "state_con (snd (connect (execute sample_host) [] ''{}'' ?c)) = NONE \<and>
      pending (snd (connect (execute sample_host) [] ''{}'' ?c)) = []"
    by blast
  from r2 c2 y failed_opening_ends_in_NONE [where h = ?h2 and prov = None and c = ?c2
      and hdrs = "''{}''" and e = "Error RuntimeError ''no''" and content = "''code''"
      and path = "''tmp.js''"]
  have "fst (compile_resume (compiler ?h2) (execute ?h2) ''code'' ''{}'' ?c2) =
        Some (Error RuntimeError ''no'') \<and>
      state_con (snd (compile_resume (compiler ?h2) (execute ?h2) ''code'' ''{}'' ?c2)) = NONE \<and>
      trace (snd (compile_resume (compiler ?h2) (execute ?h2) ''code'' ''{}'' ?c2)) =
        trace ?c2 @ [Remove ''tmp.js'']"
    by blast
  with y c2 have B: "fst (compile_resume (compiler sample_host)
        (\<lambda>f h. Inl (Error RuntimeError ''no'')) ''code'' ''{}'' ?c2) =
        Some (Error RuntimeError ''no'') \<and>
      state_con (snd (compile_resume (compiler sample_host)
        (\<lambda>f h. Inl (Error RuntimeError ''no'')) ''code'' ''{}'' ?c2)) = NONE \<and>
      trace (snd (compile_resume (compiler sample_host)
        (\<lambda>f h. Inl (Error RuntimeError ''no'')) ''code'' ''{}'' ?c2)) = [Remove ''tmp.js'']"
    by simp
  from rw sw failed_opening_ends_in_NONE [where e = "Error RuntimeError ''EADDRINUSE''"
      and key = None and cert = None and w = ?w]
  have C: "state_web (on_error (Error RuntimeError ''EADDRINUSE'') ?w) = NONE"
    by blast
  from r r2 w c2 x y rw sw A B C show ?thesis by blast
qed

section \<open>The order of the stages\<close>

subsection \<open>Single steps and the order of the stages\<close>

lemma web_step_stage:
  assumes "web_enabled ev s"
  shows "stage (state_web s) \<le> stage (state_web (web_step ev s)) \<or>
    (state_web s = OPENING \<and> (\<exists>e. ev = WebError e) \<and> state_web (web_step ev s) = NONE) \<or>
    (state_web s = CLOSED \<and> (\<exists>p. ev = WebOpen p) \<and> state_web (web_step ev s) = OPENING)"
proof (cases ev)
  case (WebOpen port)
  then show ?thesis
    by (cases "state_web s") (simp_all add: open_web_def Open_web_def Let_def)
next
  case WebClose
  then show ?thesis
    by (cases "state_web s") (simp_all add: close_enter_web_def)
next
  case WebProtocolClosed
  then show ?thesis by (simp add: close_protocol_web_def)
next
  case WebServerClosed
  with assms show ?thesis by (simp add: close_leave_web_def)
next
  case WebListening
  with assms show ?thesis
    by (simp add: on_listening_def funpow_listening_handler)
next
  case (WebError e)
  with assms show ?thesis
    by (simp add: on_error_def funpow_error_handler)
qed

lemma con_step_stage:
  assumes "con_enabled ev s" and "worker_con s = None \<longrightarrow> state_con s = NONE"
  shows "stage (state_con s) \<le> stage (state_con (con_step h ev s)) \<or>
    (state_con s = CLOSED \<and> ((\<exists>f a. ev = ConConnect f a) \<or> (\<exists>c a. ev = ConCompiled c a)) \<and>
     (state_con (con_step h ev s) = CONNECTING \<or> state_con (con_step h ev s) = NONE))"
proof (cases ev)
  case (ConConnect jsf hdrs)
  with assms show ?thesis
    by (cases "state_con s")
       (auto simp add: connect_def Connect_def Let_def Test_connection_def
         split: option.splits sum.splits)
next
  case (ConCompile content hdrs)
  then show ?thesis
    by (auto simp add: compile_enter_def split: option.splits)
next
  case (ConCompiled content hdrs)
  with assms show ?thesis
    by (cases "state_con s")
       (auto simp add: compile_resume_def Connect_def Let_def emit_def
         split: option.splits sum.splits)
next
  case ConClose
  then show ?thesis
    by (cases "state_con s")
       (auto simp add: close_def inspectReady_def IConnector_inspect_def Let_def emit_def
         split: option.splits)
next
  case (ConCall invoke)
  then show ?thesis
    by (auto simp add: sendCall_def sendData_def emit_def split: option.splits)
next
  case (ConFrame data)
  with assms show ?thesis
    by (cases "state_con s")
       (auto simp add: Handle_message_def Handle_close_def call_connector_def destructor_def
         replyData_def emit_def
         split: option.splits prod.splits Awaiter.splits bool.splits if_splits)
qed

lemma Handle_message_old_stage:
  "stage (state_old s) \<le> stage (state_old (Handle_message_old parse data s))"
  by (cases "state_old s")
     (auto simp add: Handle_message_old_def close_old_def close_enter_old_def close_leave_old_def
       close_timer_old_def inspectReady_old_def destructor_def replyData_def emit_def
       split: option.splits prod.splits)

lemma old_step_stage:
  assumes "old_enabled env ev s"
  shows "stage (state_old s) \<le> stage (state_old (old_step h env ev s))"
proof (cases ev)
  case (SrvOpen prov)
  with assms show ?thesis
    by (cases "state_old s") (auto simp add: open_old_def open_body_old_def emit_def)
next
  case SrvHeader
  then show ?thesis
    by (auto simp add: headers_get_old_def split: option.splits sum.splits)
next
  case SrvClose
  then show ?thesis
    by (cases "state_old s")
       (simp_all add: close_enter_old_def inspectReady_old_def destructor_def emit_def)
next
  case SrvCloseLeave
  with assms show ?thesis by (simp add: close_leave_old_def)
next
  case SrvCloseTimer
  then show ?thesis by (simp add: close_timer_old_def emit_def)
next
  case (SrvCall invoke)
  then show ?thesis
    by (auto simp add: sendCall_def sendData_old_def emit_def split: option.splits)
next
  case (SrvFrame data)
  then show ?thesis by (simp add: deliver_old_def Handle_message_old_stage)
qed

lemma funpow_emit_fields:
  "state_new (((emit e) ^^ n) s) = state_new s \<and>
   opening_new (((emit e) ^^ n) s) = opening_new s"
  by (induction n) (simp_all add: emit_def)

lemma funpow_resume_fields:
  "state_new (((emit e \<circ> open_resume) ^^ n) s) = (if n = 0 then state_new s else OPEN) \<and>
   opening_new (((emit e \<circ> open_resume) ^^ n) s) = opening_new s"
  by (induction n) (simp_all add: emit_def open_resume_def)

lemma Handle_message_new_fields:
  "stage (state_new s) \<le> stage (state_new (Handle_message_new parse data s)) \<and>
   opening_new (Handle_message_new parse data s) = opening_new s \<and>
   header_new (Handle_message_new parse data s) = header_new s"
  by (cases "state_new s")
     (auto simp add: Handle_message_new_def close_new_def close_enter_new_def close_leave_new_def
       close_timer_new_def inspectReady_new_def destructor_def replyData_def emit_def
       split: option.splits prod.splits)

lemma Handle_message_new_state:
  "state_new s \<noteq> OPEN \<Longrightarrow> state_new (Handle_message_new parse data s) = state_new s"
  by (cases "state_new s")
     (auto simp add: Handle_message_new_def close_new_def close_enter_new_def
       inspectReady_new_def replyData_def emit_def split: option.splits prod.splits)

lemma new_step_invariant:
  assumes "0 < opening_new s \<longrightarrow> state_new s = OPENING \<and> header_new s = Some Waiting"
    and "new_enabled env ev s"
  shows "0 < opening_new (new_step h env ev s) \<longrightarrow>
    state_new (new_step h env ev s) = OPENING \<and> header_new (new_step h env ev s) = Some Waiting"
proof (cases ev)
  case (SrvOpen prov)
  with assms show ?thesis
    by (cases "header_new s")
       (auto simp add: open_new_def open_body_new_def header_get_def open_resume_def Let_def
         emit_def split: option.splits Promise.splits)
next
  case SrvHeader
  with assms show ?thesis
    by (auto simp add: getHeader_def header_get_def Let_def emit_def split: option.splits)
next
  case SrvClose
  with assms show ?thesis
    by (cases "state_new s")
       (auto simp add: close_enter_new_def inspectReady_new_def destructor_def emit_def)
next
  case SrvCloseLeave
  with assms show ?thesis by (auto simp add: close_leave_new_def)
next
  case SrvCloseTimer
  with assms show ?thesis by (auto simp add: close_timer_new_def emit_def)
next
  case (SrvCall invoke)
  with assms show ?thesis
    by (auto simp add: sendCall_def sendData_new_def emit_def split: option.splits)
next
  case (SrvFrame data)
  show ?thesis
  proof (cases "onmessage_new s")
    case HandshakeOnce
    with SrvFrame show ?thesis
      by (auto simp add: deliver_new_def Handshake_message_def Let_def funpow_emit_fields
          funpow_resume_fields split: option.splits sum.splits)
  next
    case HandleMessage
    with SrvFrame assms Handle_message_new_fields [of s "parse_frame h" data]
      Handle_message_new_state [of s "parse_frame h" data]
    show ?thesis
      by (auto simp add: deliver_new_def)
  qed (use SrvFrame assms in \<open>auto simp add: deliver_new_def\<close>)
qed

lemma reachable_new_invariant:
  "reachable (new_enabled env) (new_step h env) new_WorkerServer s \<Longrightarrow>
   0 < opening_new s \<longrightarrow> state_new s = OPENING \<and> header_new s = Some Waiting"
proof (induction rule: reachable.induct)
  case start
  show ?case by (simp add: new_WorkerServer_def)
next
  case (after s e)
  from after.IH after.hyps(2) show ?case
    by (intro new_step_invariant) simp_all
qed

lemma new_step_stage:
  assumes "new_enabled env ev s"
    and "0 < opening_new s \<longrightarrow> state_new s = OPENING \<and> header_new s = Some Waiting"
  shows "stage (state_new s) \<le> stage (state_new (new_step h env ev s))"
proof (cases ev)
  case (SrvOpen prov)
  with assms show ?thesis
    by (cases "state_new s")
       (auto simp add: open_new_def open_body_new_def header_get_def open_resume_def Let_def
         emit_def split: option.splits Promise.splits)
next
  case SrvHeader
  then show ?thesis
    by (auto simp add: getHeader_def header_get_def Let_def emit_def split: option.splits)
next
  case SrvClose
  then show ?thesis
    by (cases "state_new s")
       (simp_all add: close_enter_new_def inspectReady_new_def destructor_def emit_def)
next
  case SrvCloseLeave
  with assms show ?thesis by (simp add: close_leave_new_def)
next
  case SrvCloseTimer
  then show ?thesis by (simp add: close_timer_new_def emit_def)
next
  case (SrvCall invoke)
  then show ?thesis
    by (auto simp add: sendCall_def sendData_new_def emit_def split: option.splits)
next
  case (SrvFrame data)
  show ?thesis
  proof (cases "onmessage_new s")
    case HandshakeOnce
    with SrvFrame assms show ?thesis
      by (cases "opening_new s = 0")
         (auto simp add: deliver_new_def Handshake_message_def Let_def funpow_emit_fields
           funpow_resume_fields split: option.splits sum.splits)
  next
    case HandleMessage
    with SrvFrame Handle_message_new_fields [of s "parse_frame h" data]
    show ?thesis
      by (simp add: deliver_new_def)
  qed (use SrvFrame in \<open>simp_all add: deliver_new_def\<close>)
qed

text \<open>
  A \<open>compile()\<close> that the runs leave out: while it waits for \<open>Compiler.compile\<close>, a
  \<open>connect()\<close> opens the connector; the rest of \<open>compile()\<close> makes no test and its
  \<open>_Connect\<close> takes the connector from \<open>OPEN\<close> to \<open>CONNECTING\<close>.
\<close>

lemma compile_after_connect_example:
  "state_con (con_step sample_host (ConFrame (Sentinel OPEN))
     (con_step sample_host (ConConnect ''worker.js'' ''{}'')
       (con_step sample_host (ConCompile ''code'' ''{}'') (new_WorkerConnector None)))) = OPEN \<and>
   \<not> con_enabled (ConCompiled ''code'' ''{}'')
     (con_step sample_host (ConFrame (Sentinel OPEN))
       (con_step sample_host (ConConnect ''worker.js'' ''{}'')
         (con_step sample_host (ConCompile ''code'' ''{}'') (new_WorkerConnector None)))) \<and>
   state_con (con_step sample_host (ConCompiled ''code'' ''{}'')
     (con_step sample_host (ConFrame (Sentinel OPEN))
       (con_step sample_host (ConConnect ''worker.js'' ''{}'')
         (con_step sample_host (ConCompile ''code'' ''{}'') (new_WorkerConnector None))))) =
     CONNECTING"
  by (simp add: compile_enter_def compile_resume_def connect_def Connect_def Test_connection_def
      new_WorkerConnector_def sample_host_def sample_execute_def Handle_message_def
      call_connector_def emit_def Let_def)

text \<open>
  Two regressions. A \<open>WebServer\<close> that is \<open>OPENING\<close> and whose port is taken goes back
  to \<open>NONE\<close>; a \<open>WebServer\<close> that is \<open>CLOSED\<close> and is opened again goes back to
  \<open>OPENING\<close>.
\<close>

theorem state_regress_counterexample:
  "web_enabled (WebError (Error RuntimeError ''EADDRINUSE''))
     (web_step (WebOpen 10101) (new_WebServer None None)) \<and>
   state_web (web_step (WebOpen 10101) (new_WebServer None None)) = OPENING \<and>
   state_web (web_step (WebError (Error RuntimeError ''EADDRINUSE''))
     (web_step (WebOpen 10101) (new_WebServer None None))) = NONE \<and>
   stage NONE < stage OPENING \<and>
   state_web closed_WebServer = CLOSED \<and>
   state_web (web_step (WebOpen 10101) closed_WebServer) = OPENING \<and>
   stage OPENING < stage CLOSED"
proof -
  have "state_web (web_step (WebOpen 10101) (new_WebServer None None)) = OPENING"
    by (simp add: new_WebServer_def open_web_def Open_web_def Let_def createServer_def)
  moreover have "state_web (web_step (WebError (Error RuntimeError ''EADDRINUSE''))
      (web_step (WebOpen 10101) (new_WebServer None None))) = NONE"
    by (simp add: new_WebServer_def open_web_def Open_web_def Let_def createServer_def
        on_error_def error_handler_def)
  moreover have "state_web (web_step (WebOpen 10101) closed_WebServer) = OPENING"
    using closed_WebServer_reachable(2)
    by (simp add: open_web_def Open_web_def Let_def)
  ultimately show ?thesis
    using closed_WebServer_reachable(2) by simp
qed

text \<open>
  C3, amended. In a run of a \<open>WebServer\<close>, a \<open>WorkerConnector\<close> or a \<open>WorkerServer\<close>
  (either source), no step moves the state to an earlier stage of
  \<open>NONE \<rightarrow> OPENING \<rightarrow> OPEN \<rightarrow> CLOSING \<rightarrow> CLOSED\<close>, but for two kinds of step: the
  server's report of an error while a \<open>WebServer\<close> is \<open>OPENING\<close>, which takes it back to
  \<open>NONE\<close>; and, on an endpoint that is \<open>CLOSED\<close>, \<open>open()\<close>, \<open>connect()\<close> or the
  \<open>_Connect\<close> of a \<open>compile()\<close> that goes on after \<open>Compiler.compile\<close>, which takes a
  \<open>WebServer\<close> to \<open>OPENING\<close> and a connector to \<open>CONNECTING\<close>, or to \<open>NONE\<close> when the
  worker cannot be started. The runs are those of section \<open>Runs of an endpoint\<close>:
  they leave out an error reported after a \<open>WebServer\<close> listens, an \<open>OPEN\<close> sentinel
  that reaches a connector which is not \<open>CONNECTING\<close>, a \<open>compile()\<close> that goes on
  after the connector has stopped passing the test \<open>compile()\<close> made, and \<open>open()\<close> on
  a used \<open>WorkerServer\<close> in a page's worker.
\<close>

theorem state_steps_monotone:
  "(reachable web_enabled web_step (new_WebServer key cert) w \<and> web_enabled we w \<longrightarrow>
      stage (state_web w) \<le> stage (state_web (web_step we w)) \<or>
      (state_web w = OPENING \<and> (\<exists>e. we = WebError e) \<and> state_web (web_step we w) = NONE) \<or>
      (state_web w = CLOSED \<and> (\<exists>p. we = WebOpen p) \<and>
       state_web (web_step we w) = OPENING)) \<and>
   (reachable con_enabled (con_step h) (new_WorkerConnector prov) c \<and> con_enabled ce c \<longrightarrow>
      stage (state_con c) \<le> stage (state_con (con_step h ce c)) \<or>
      (state_con c = CLOSED \<and>
       ((\<exists>f a. ce = ConConnect f a) \<or> (\<exists>x a. ce = ConCompiled x a)) \<and>
       (state_con (con_step h ce c) = CONNECTING \<or> state_con (con_step h ce c) = NONE))) \<and>
   (reachable (old_enabled env) (old_step h env) new_WorkerServer_old s \<and>
    old_enabled env se s \<longrightarrow>
      stage (state_old s) \<le> stage (state_old (old_step h env se s))) \<and>
   (reachable (new_enabled env) (new_step h env) new_WorkerServer t \<and>
    new_enabled env se t \<longrightarrow>
      stage (state_new t) \<le> stage (state_new (new_step h env se t)))"
proof (intro conjI impI)
  assume "reachable web_enabled web_step (new_WebServer key cert) w \<and> web_enabled we w"
  then show "stage (state_web w) \<le> stage (state_web (web_step we w)) \<or>
      (state_web w = OPENING \<and> (\<exists>e. we = WebError e) \<and> state_web (web_step we w) = NONE) \<or>
      (state_web w = CLOSED \<and> (\<exists>p. we = WebOpen p) \<and> state_web (web_step we w) = OPENING)"
    using web_step_stage [of we w] by blast
next
  assume a: "reachable con_enabled (con_step h) (new_WorkerConnector prov) c \<and> con_enabled ce c"
  then have "worker_con c = None \<longrightarrow> state_con c = NONE"
    using reachable_con_invariant [of h prov c] by blast
  with a show "stage (state_con c) \<le> stage (state_con (con_step h ce c)) \<or>
      (state_con c = CLOSED \<and>
       ((\<exists>f a. ce = ConConnect f a) \<or> (\<exists>x a. ce = ConCompiled x a)) \<and>
       (state_con (con_step h ce c) = CONNECTING \<or> state_con (con_step h ce c) = NONE))"
    by (intro con_step_stage) simp_all
next
  assume "reachable (old_enabled env) (old_step h env) new_WorkerServer_old s \<and>
    old_enabled env se s"
  then show "stage (state_old s) \<le> stage (state_old (old_step h env se s))"
    by (intro old_step_stage) simp
next
  assume a: "reachable (new_enabled env) (new_step h env) new_WorkerServer t \<and>
    new_enabled env se t"
  then have "0 < opening_new t \<longrightarrow> state_new t = OPENING \<and> header_new t = Some Waiting"
    using reachable_new_invariant [of env h t] by blast
  with a show "stage (state_new t) \<le> stage (state_new (new_step h env se t))"
    by (intro new_step_stage) simp_all
qed

theorem state_steps_monotone_witness:
  "reachable web_enabled web_step (new_WebServer None None)
     (web_step (WebOpen 10101) (new_WebServer None None)) \<and>
   web_enabled WebListening (web_step (WebOpen 10101) (new_WebServer None None)) \<and>
   stage (state_web (web_step (WebOpen 10101) (new_WebServer None None))) \<le>
     stage (state_web (web_step WebListening (web_step (WebOpen 10101) (new_WebServer None None)))) \<and>
   reachable con_enabled (con_step sample_host) (new_WorkerConnector None)
     (new_WorkerConnector None) \<and>
   con_enabled (ConConnect ''server.js'' ''{}'') (new_WorkerConnector None) \<and>
   stage (state_con (new_WorkerConnector None)) \<le>
     stage (state_con (con_step sample_host (ConConnect ''server.js'' ''{}'')
       (new_WorkerConnector None))) \<and>
   reachable (old_enabled node_env) (old_step sample_host node_env) new_WorkerServer_old
     new_WorkerServer_old \<and>
   old_enabled node_env (SrvOpen None) new_WorkerServer_old \<and>
   stage (state_old new_WorkerServer_old) \<le>
     stage (state_old (old_step sample_host node_env (SrvOpen None) new_WorkerServer_old)) \<and>
   reachable (new_enabled node_env) (new_step sample_host node_env) new_WorkerServer
     new_WorkerServer \<and>
   new_enabled node_env (SrvOpen None) new_WorkerServer \<and>
   stage (state_new new_WorkerServer) \<le>
     stage (state_new (new_step sample_host node_env (SrvOpen None) new_WorkerServer))"
proof -
  let ?w = "web_step (WebOpen 10101) (new_WebServer None None)"
  let ?c = "new_WorkerConnector None"
  have rw: "reachable web_enabled web_step (new_WebServer None None) ?w"
    by (rule reachable.after [OF reachable.start]) simp
  have sw: "state_web ?w = OPENING"
    by (simp add: new_WebServer_def open_web_def Open_web_def Let_def createServer_def)
  then have ew: "web_enabled WebListening ?w"
    by simp
  have sl: "state_web (web_step WebListening ?w) = OPEN"
    by (simp add: new_WebServer_def open_web_def Open_web_def Let_def createServer_def
        on_listening_def listening_handler_def)
  have rc: "reachable con_enabled (con_step sample_host) ?c ?c"
    by (rule reachable.start)
  have ec: "con_enabled (ConConnect ''server.js'' ''{}'') ?c"
    by simp
  have sc: "state_con ?c = NONE \<and>
      state_con (con_step sample_host (ConConnect ''server.js'' ''{}'') ?c) = OPENING"
    by (simp add: new_WorkerConnector_def connect_def Connect_def Test_connection_def Let_def
        sample_host_def sample_execute_def)
  have ro: "reachable (old_enabled node_env) (old_step sample_host node_env)
      new_WorkerServer_old new_WorkerServer_old"
    by (rule reachable.start)
  have eo: "old_enabled node_env (SrvOpen None) new_WorkerServer_old"
    by (simp add: node_env_def)
  have rn: "reachable (new_enabled node_env) (new_step sample_host node_env)
      new_WorkerServer new_WorkerServer"
    by (rule reachable.start)
  have en: "new_enabled node_env (SrvOpen None) new_WorkerServer"
    by (simp add: node_env_def)
  note inst = state_steps_monotone [of None None ?w WebListening sample_host None ?c
      "ConConnect ''server.js'' ''{}''" node_env new_WorkerServer_old "SrvOpen None"
      new_WorkerServer]
  from inst rw ew sw sl
  have A: "stage (state_web ?w) \<le> stage (state_web (web_step WebListening ?w))"
    by simp
  from inst rc ec sc
  have B: "stage (state_con ?c) \<le>
      stage (state_con (con_step sample_host (ConConnect ''server.js'' ''{}'') ?c))"
    by simp
  from inst ro eo
  have C: "stage (state_old new_WorkerServer_old) \<le>
      stage (state_old (old_step sample_host node_env (SrvOpen None) new_WorkerServer_old))"
    by blast
  from inst rn en
  have D: "stage (state_new new_WorkerServer) \<le>
      stage (state_new (new_step sample_host node_env (SrvOpen None) new_WorkerServer))"
    by blast
  from rw ew A rc ec B ro eo C rn en D show ?thesis by blast
qed

section \<open>Using a connector again\<close>

subsection \<open>One cycle of a connector\<close>

lemma call_answered:
  assumes "state_con s = OPEN" and "worker_con s = Some w" and "pending s = []"
    and "answered h answer invoke"
  shows "\<exists>s'. sendCall (inspectReady ''call'') (sendData (stringify h)) invoke s = (None, s') \<and>
    state_con (Handle_message (parse_frame h) (Payload (answer invoke)) s') = OPEN \<and>
    worker_con (Handle_message (parse_frame h) (Payload (answer invoke)) s') = Some w \<and>
    pending (Handle_message (parse_frame h) (Payload (answer invoke)) s') = [] \<and>
    trace (Handle_message (parse_frame h) (Payload (answer invoke)) s') =
      trace s @ call_effects h answer invoke"
proof -
  from assms(4) obtain j where j: "parse_frame h (Payload (answer invoke)) = Some j"
      and r: "as_return j = Some (uid invoke, True)"
    by (auto simp add: answered_def split: option.splits)
  let ?s' = "sendData (stringify h) invoke (s\<lparr>pending := pending s @ [uid invoke]\<rparr>)"
  have gate: "inspectReady ''call'' s = None"
    using assms(1) by (simp add: inspectReady_def IConnector_inspect_def)
  have sent: "sendCall (inspectReady ''call'') (sendData (stringify h)) invoke s = (None, ?s')"
    by (simp add: sendCall_def gate)
  have s': "state_con ?s' = OPEN" "worker_con ?s' = Some w" "pending ?s' = [uid invoke]"
      "trace ?s' = trace s @ [PostMessage (Payload (stringify h invoke))]"
    using assms(1-3) by (simp_all add: sendData_def emit_def)
  have "Handle_message (parse_frame h) (Payload (answer invoke)) ?s' = replyData j ?s'"
    by (simp add: Handle_message_def j)
  with s' r j have "state_con (Handle_message (parse_frame h) (Payload (answer invoke)) ?s') = OPEN \<and>
      worker_con (Handle_message (parse_frame h) (Payload (answer invoke)) ?s') = Some w \<and>
      pending (Handle_message (parse_frame h) (Payload (answer invoke)) ?s') = [] \<and>
      trace (Handle_message (parse_frame h) (Payload (answer invoke)) ?s') =
        trace s @ call_effects h answer invoke"
    by (simp add: replyData_def emit_def call_effects_def)
  with sent show ?thesis by blast
qed

lemma use_answered:
  "state_con s = OPEN \<Longrightarrow> worker_con s = Some w \<Longrightarrow> pending s = [] \<Longrightarrow>
   \<forall>invoke \<in> set calls. answered h answer invoke \<Longrightarrow>
   fst (use h answer calls s) = None \<and>
   state_con (snd (use h answer calls s)) = OPEN \<and>
   worker_con (snd (use h answer calls s)) = Some w \<and>
   pending (snd (use h answer calls s)) = [] \<and>
   trace (snd (use h answer calls s)) = trace s @ concat (map (call_effects h answer) calls)"
proof (induction calls arbitrary: s)
  case Nil
  then show ?case by simp
next
  case (Cons invoke calls)
  from Cons.prems have a: "answered h answer invoke"
    by simp
  from call_answered [OF Cons.prems(1-3) a]
  obtain s' where sent: "sendCall (inspectReady ''call'') (sendData (stringify h)) invoke s = (None, s')"
      and ret: "state_con (Handle_message (parse_frame h) (Payload (answer invoke)) s') = OPEN"
        "worker_con (Handle_message (parse_frame h) (Payload (answer invoke)) s') = Some w"
        "pending (Handle_message (parse_frame h) (Payload (answer invoke)) s') = []"
      and tr: "trace (Handle_message (parse_frame h) (Payload (answer invoke)) s') =
        trace s @ call_effects h answer invoke"
    by blast
  let ?s'' = "Handle_message (parse_frame h) (Payload (answer invoke)) s'"
  have step: "use h answer (invoke # calls) s = use h answer calls ?s''"
    by (simp add: sent)
  from Cons.prems have rest: "\<forall>invoke \<in> set calls. answered h answer invoke"
    by simp
  from Cons.IH [OF ret rest] tr show ?case
    unfolding step by simp
qed

lemma cycle_effects_run:
  assumes "worker_con s = None \<or> state_con s = CLOSED" and "pending s = []"
    and "execute h jsf hdrs = Inr w"
    and "\<forall>invoke \<in> set calls. answered h answer invoke"
  shows "fst (cycle h answer jsf hdrs calls s) = None \<and>
    state_con (snd (cycle h answer jsf hdrs calls s)) = CLOSED \<and>
    pending (snd (cycle h answer jsf hdrs calls s)) = [] \<and>
    worker_con (snd (cycle h answer jsf hdrs calls s)) = Some w \<and>
    trace (snd (cycle h answer jsf hdrs calls s)) = trace s @ cycle_effects h answer calls"
proof -
  let ?s1 = "s\<lparr>state_con := CONNECTING, worker_con := Some w,
    connector_con := Some (Awaiter None False)\<rparr>"
  let ?s2 = "Handle_message (parse_frame h) (Sentinel OPEN) ?s1"
  have t: "Test_connection ''connect'' s = None"
    using assms(1) by (simp add: Test_connection_None)
  have c: "connect (execute h) jsf hdrs s = (None, ?s1)"
    by (simp add: connect_def Connect_def t assms(3) Let_def)
  have s2: "state_con ?s2 = OPEN" "worker_con ?s2 = Some w" "pending ?s2 = []"
      "trace ?s2 = trace s @ [Resolve]"
    using assms(2) by (simp_all add: Handle_message_def call_connector_def emit_def)
  from use_answered [OF s2(1-3) assms(4)] s2(4)
  obtain s3 where u: "use h answer calls ?s2 = (None, s3)"
      and s3: "state_con s3 = OPEN" "worker_con s3 = Some w" "pending s3 = []"
        "trace s3 = trace s @ Resolve # concat (map (call_effects h answer) calls)"
    by (cases "use h answer calls ?s2") auto
  have cl: "close s3 = (None, emit (PostMessage (Sentinel CLOSING)) (s3\<lparr>state_con := CLOSING\<rparr>))"
    using s3 by (simp add: close_def inspectReady_def IConnector_inspect_def Let_def)
  have "cycle h answer jsf hdrs calls s =
      (None, Handle_message (parse_frame h) (Sentinel CLOSING)
         (emit (PostMessage (Sentinel CLOSING)) (s3\<lparr>state_con := CLOSING\<rparr>)))"
    by (simp add: cycle_def c u cl)
  then show ?thesis
    using s3
    by (simp add: Handle_message_def Handle_close_def destructor_def emit_def cycle_effects_def)
qed

lemma cycles_effects_run:
  assumes "execute h jsf hdrs = Inr w"
  shows "worker_con s = None \<or> state_con s = CLOSED \<Longrightarrow> pending s = [] \<Longrightarrow>
    \<forall>calls \<in> set uss. \<forall>invoke \<in> set calls. answered h answer invoke \<Longrightarrow>
    fst (cycles h answer jsf hdrs uss s) = None \<and>
    trace (snd (cycles h answer jsf hdrs uss s)) =
      trace s @ concat (map (cycle_effects h answer) uss) \<and>
    (uss \<noteq> [] \<longrightarrow>
       state_con (snd (cycles h answer jsf hdrs uss s)) = CLOSED \<and>
       pending (snd (cycles h answer jsf hdrs uss s)) = [] \<and>
       worker_con (snd (cycles h answer jsf hdrs uss s)) = Some w)"
proof (induction uss arbitrary: s)
  case Nil
  show ?case by simp
next
  case (Cons calls uss)
  from Cons.prems(3) have here: "\<forall>invoke \<in> set calls. answered h answer invoke"
    and rest: "\<forall>calls \<in> set uss. \<forall>invoke \<in> set calls. answered h answer invoke"
    by simp_all
  from cycle_effects_run [OF Cons.prems(1,2) assms here]
  obtain s' where one: "cycle h answer jsf hdrs calls s = (None, s')"
      and closed: "state_con s' = CLOSED" "pending s' = []" "worker_con s' = Some w"
      and tr: "trace s' = trace s @ cycle_effects h answer calls"
    by (cases "cycle h answer jsf hdrs calls s") auto
  have step: "cycles h answer jsf hdrs (calls # uss) s = cycles h answer jsf hdrs uss s'"
    by (simp add: one)
  from closed have "worker_con s' = None \<or> state_con s' = CLOSED"
    by simp
  from Cons.IH [OF this closed(2) rest] closed tr show ?case
    unfolding step by (cases uss) simp_all
qed

lemma cycle_effects_no_rejection:
  "CallRejected u \<notin> set (cycle_effects h answer calls)"
  by (auto simp add: cycle_effects_def call_effects_def split: option.splits)

lemma cycle_effects_resolved:
  "invoke \<in> set calls \<Longrightarrow> answered h answer invoke \<Longrightarrow>
   CallResolved (uid invoke) \<in> set (cycle_effects h answer calls)"
proof -
  assume i: "invoke \<in> set calls" and a: "answered h answer invoke"
  from a have "CallResolved (uid invoke) \<in> set (call_effects h answer invoke)"
    by (auto simp add: call_effects_def answered_def split: option.splits)
  with i have "CallResolved (uid invoke) \<in> set (concat (map (call_effects h answer) calls))"
    by auto
  then show ?thesis
    by (simp add: cycle_effects_def)
qed

text \<open>
  C6. A \<open>WorkerConnector\<close> of a run that is new (it has no worker yet) or \<open>CLOSED\<close>
  can go through the cycle \<open>connect(); use; close()\<close> any number \<open>n \<ge> 1\<close> of times,
  the worker starting each time, answering \<open>connect\<close> with the \<open>OPEN\<close> sentinel, each
  Call with a successful Return and \<open>close\<close> with the \<open>CLOSING\<close> sentinel. No call of
  the \<open>n\<close> cycles is rejected: not a \<open>connect()\<close>, not a Call, not a \<open>close()\<close>. The
  effects are, cycle after cycle: the promise of \<open>connect()\<close> is resolved; each Call is
  posted to the worker, its Return is given to \<open>replyData\<close> and its future is resolved;
  the \<open>CLOSING\<close> sentinel is posted and the destructor runs. So every Call succeeds
  and none is rejected, the destructor finding the pending-call table empty. At the
  end the connector is \<open>CLOSED\<close> with an empty pending-call table, and a further
  \<open>connect()\<close> passes its test. Since \<open>uss\<close> is any list of uses, this holds after each
  of the cycles.
\<close>

theorem connector_reuse:
  "reachable con_enabled (con_step h) (new_WorkerConnector prov) s \<and>
   (worker_con s = None \<or> state_con s = CLOSED) \<and> execute h jsf hdrs = Inr w \<and>
   (\<forall>calls \<in> set uss. \<forall>invoke \<in> set calls. answered h answer invoke) \<and> uss \<noteq> [] \<longrightarrow>
     fst (cycles h answer jsf hdrs uss s) = None \<and>
     state_con (snd (cycles h answer jsf hdrs uss s)) = CLOSED \<and>
     pending (snd (cycles h answer jsf hdrs uss s)) = [] \<and>
     worker_con (snd (cycles h answer jsf hdrs uss s)) = Some w \<and>
     trace (snd (cycles h answer jsf hdrs uss s)) =
       trace s @ concat (map (cycle_effects h answer) uss) \<and>
     (\<forall>calls \<in> set uss. \<forall>invoke \<in> set calls.
        CallResolved (uid invoke) \<in> set (trace (snd (cycles h answer jsf hdrs uss s)))) \<and>
     (\<forall>u. CallRejected u \<in> set (trace (snd (cycles h answer jsf hdrs uss s))) \<longrightarrow>
        CallRejected u \<in> set (trace s)) \<and>
     Test_connection ''connect'' (snd (cycles h answer jsf hdrs uss s)) = None"
proof
  assume a: "reachable con_enabled (con_step h) (new_WorkerConnector prov) s \<and>
    (worker_con s = None \<or> state_con s = CLOSED) \<and> execute h jsf hdrs = Inr w \<and>
    (\<forall>calls \<in> set uss. \<forall>invoke \<in> set calls. answered h answer invoke) \<and> uss \<noteq> []"
  let ?r = "snd (cycles h answer jsf hdrs uss s)"
  from a have inv: "worker_con s = None \<longrightarrow> state_con s = NONE"
      "state_con s \<noteq> OPEN \<and> state_con s \<noteq> CLOSING \<longrightarrow> pending s = []"
    using reachable_con_invariant [of h prov s] by simp_all
  with a have p: "pending s = []"
    by auto
  from a have run: "fst (cycles h answer jsf hdrs uss s) = None \<and>
      trace ?r = trace s @ concat (map (cycle_effects h answer) uss) \<and>
      state_con ?r = CLOSED \<and> pending ?r = [] \<and> worker_con ?r = Some w"
    using cycles_effects_run [of h jsf hdrs w s uss answer] p by simp
  have resolved: "\<forall>calls \<in> set uss. \<forall>invoke \<in> set calls. CallResolved (uid invoke) \<in> set (trace ?r)"
  proof (intro ballI)
    fix calls invoke
    assume "calls \<in> set uss" and "invoke \<in> set calls"
    with a cycle_effects_resolved [of invoke calls h answer]
    have "CallResolved (uid invoke) \<in> set (cycle_effects h answer calls)"
      by simp
    with \<open>calls \<in> set uss\<close> run show "CallResolved (uid invoke) \<in> set (trace ?r)"
      by auto
  qed
  have rejected: "\<forall>u. CallRejected u \<in> set (trace ?r) \<longrightarrow> CallRejected u \<in> set (trace s)"
    using run cycle_effects_no_rejection [of _ h answer] by auto
  from run resolved rejected
  show "fst (cycles h answer jsf hdrs uss s) = None \<and>
      state_con ?r = CLOSED \<and> pending ?r = [] \<and> worker_con ?r = Some w \<and>
      trace ?r = trace s @ concat (map (cycle_effects h answer) uss) \<and>
      (\<forall>calls \<in> set uss. \<forall>invoke \<in> set calls. CallResolved (uid invoke) \<in> set (trace ?r)) \<and>
      (\<forall>u. CallRejected u \<in> set (trace ?r) \<longrightarrow> CallRejected u \<in> set (trace s)) \<and>
      Test_connection ''connect'' ?r = None"
    by (simp add: Test_connection_None)
qed

text \<open>
  The theorem at work as in the test of the repository: a new connector goes five
  times through \<open>connect(); two Calls; close()\<close> with the same file.
\<close>

theorem connector_reuse_witness:
  "reachable con_enabled (con_step return_host) (new_WorkerConnector None) (new_WorkerConnector None) \<and>
   (worker_con (new_WorkerConnector None) = None \<or> state_con (new_WorkerConnector None) = CLOSED) \<and>
   execute return_host ''worker.js'' ''{}'' = Inr (Worker ''worker.js'' ''{}'') \<and>
   answered return_host return_answer (Call 1 ''plus'' [''2'', ''3'']) \<and>
   answered return_host return_answer (Call 2 ''multiplies'' [''5'', ''4'']) \<and>
   replicate 5 [Call 1 ''plus'' [''2'', ''3''], Call 2 ''multiplies'' [''5'', ''4'']] \<noteq> [] \<and>
   fst (cycles return_host return_answer ''worker.js'' ''{}''
          (replicate 5 [Call 1 ''plus'' [''2'', ''3''], Call 2 ''multiplies'' [''5'', ''4'']])
          (new_WorkerConnector None)) = None \<and>
   state_con (snd (cycles return_host return_answer ''worker.js'' ''{}''
          (replicate 5 [Call 1 ''plus'' [''2'', ''3''], Call 2 ''multiplies'' [''5'', ''4'']])
          (new_WorkerConnector None))) = CLOSED \<and>
   pending (snd (cycles return_host return_answer ''worker.js'' ''{}''
          (replicate 5 [Call 1 ''plus'' [''2'', ''3''], Call 2 ''multiplies'' [''5'', ''4'']])
          (new_WorkerConnector None))) = [] \<and>
   CallResolved 2 \<in> set (trace (snd (cycles return_host return_answer ''worker.js'' ''{}''
          (replicate 5 [Call 1 ''plus'' [''2'', ''3''], Call 2 ''multiplies'' [''5'', ''4'']])
          (new_WorkerConnector None)))) \<and>
   CallRejected 2 \<notin> set (trace (snd (cycles return_host return_answer ''worker.js'' ''{}''
          (replicate 5 [Call 1 ''plus'' [''2'', ''3''], Call 2 ''multiplies'' [''5'', ''4'']])
          (new_WorkerConnector None)))) \<and>
   length (trace (snd (cycles return_host return_answer ''worker.js'' ''{}''
          (replicate 5 [Call 1 ''plus'' [''2'', ''3''], Call 2 ''multiplies'' [''5'', ''4'']])
          (new_WorkerConnector None)))) = 45"
proof -
  let ?uss = "replicate 5 [Call 1 ''plus'' [''2'', ''3''], Call 2 ''multiplies'' [''5'', ''4'']]"
  let ?c = "new_WorkerConnector None"
  have r: "reachable con_enabled (con_step return_host) ?c ?c"
    by (rule reachable.intros(1))
  have n: "worker_con ?c = None \<or> state_con ?c = CLOSED"
    by (simp add: new_WorkerConnector_def)
  have e: "execute return_host ''worker.js'' ''{}'' = Inr (Worker ''worker.js'' ''{}'')"
    by (simp add: return_host_def sample_host_def sample_execute_def)
  have a: "\<forall>calls \<in> set ?uss. \<forall>invoke \<in> set calls. answered return_host return_answer invoke"
    by (simp add: answered_def return_host_def sample_host_def return_parse_frame_def
        return_answer_def)
  have ne: "?uss \<noteq> []"
    by simp
  have t: "trace ?c = []"
    by (simp add: new_WorkerConnector_def)
  have l: "length (concat (map (cycle_effects return_host return_answer) ?uss)) = 45"
    by (simp add: cycle_effects_def call_effects_def return_host_def sample_host_def
        return_parse_frame_def return_answer_def length_concat sum_list_replicate)
  from connector_reuse [of return_host None ?c "''worker.js''" "''{}''" "Worker ''worker.js'' ''{}''"
      ?uss return_answer] r n e a ne
  have c: "fst (cycles return_host return_answer ''worker.js'' ''{}'' ?uss ?c) = None \<and>
     state_con (snd (cycles return_host return_answer ''worker.js'' ''{}'' ?uss ?c)) = CLOSED \<and>
     pending (snd (cycles return_host return_answer ''worker.js'' ''{}'' ?uss ?c)) = [] \<and>
     trace (snd (cycles return_host return_answer ''worker.js'' ''{}'' ?uss ?c)) =
       trace ?c @ concat (map (cycle_effects return_host return_answer) ?uss) \<and>
     (\<forall>calls \<in> set ?uss. \<forall>invoke \<in> set calls.
        CallResolved (uid invoke) \<in>
          set (trace (snd (cycles return_host return_answer ''worker.js'' ''{}'' ?uss ?c)))) \<and>
     (\<forall>u. CallRejected u \<in>
          set (trace (snd (cycles return_host return_answer ''worker.js'' ''{}'' ?uss ?c))) \<longrightarrow>
        CallRejected u \<in> set (trace ?c))"
    by blast
  from c have res: "\<forall>calls \<in> set ?uss. \<forall>invoke \<in> set calls.
      CallResolved (uid invoke) \<in>
        set (trace (snd (cycles return_host return_answer ''worker.js'' ''{}'' ?uss ?c)))"
    by blast
  have two: "CallResolved 2 \<in>
      set (trace (snd (cycles return_host return_answer ''worker.js'' ''{}'' ?uss ?c)))"
    using res [rule_format, of "[Call 1 ''plus'' [''2'', ''3''], Call 2 ''multiplies'' [''5'', ''4'']]"
        "Call 2 ''multiplies'' [''5'', ''4'']"]
    by simp
  from c have rej: "\<forall>u. CallRejected u \<in>
        set (trace (snd (cycles return_host return_answer ''worker.js'' ''{}'' ?uss ?c))) \<longrightarrow>
      CallRejected u \<in> set (trace ?c)"
    by blast
  with t have none: "\<forall>u. CallRejected u \<notin>
      set (trace (snd (cycles return_host return_answer ''worker.js'' ''{}'' ?uss ?c)))"
    by auto
  from c t l have len: "length (trace (snd (cycles return_host return_answer ''worker.js'' ''{}''
      ?uss ?c))) = 45"
    by simp
  from a have a1: "answered return_host return_answer (Call 1 ''plus'' [''2'', ''3''])"
      and a2: "answered return_host return_answer (Call 2 ''multiplies'' [''5'', ''4''])"
    by simp_all
  from none have no2: "CallRejected 2 \<notin>
      set (trace (snd (cycles return_host return_answer ''worker.js'' ''{}'' ?uss ?c)))"
    by blast
  from r n e a1 a2 ne c two no2 len show ?thesis
    by blast
qed


end
